theory Spec2Isabelle
  imports Main "HOL-Library.Sublist"
begin

section \<open>Python values\<close>

text \<open>
  The functions of \<^verbatim>\<open>backend/src/services/model_testing.py\<close> work on what
  \<^verbatim>\<open>response.json()\<close> returns and on the request dictionaries they build: the values
  of Python's \<^verbatim>\<open>json\<close> module.  A dictionary is an association list in insertion
  order (keys distinct, looked up with \<open>map_of\<close>).  A float is never computed with, only
  tested for zero and printed, so it is represented by its \<^verbatim>\<open>repr\<close> text
  (\<^verbatim>\<open>0.7\<close> is \<open>JFloat ''0.7''\<close>).  A \<open>char\<close> stands for one code point of a Python
  string; the model covers code points below 256.
\<close>

datatype json =
    JNull
  | JBool bool
  | JInt int
  | JFloat string
  | JStr string
  | JList "json list"
  | JDict "(string \<times> json) list"

text \<open>
  The exceptions that can travel through the code.  Every constructor is a subclass of
  \<^verbatim>\<open>Exception\<close>; the argument is what \<^verbatim>\<open>str(e)\<close> returns.  \<open>TimeoutException\<close> and
  \<open>ConnectError\<close> are the two httpx classes the code names, \<open>TransportError\<close> is any other
  failure of the HTTP client, \<open>Gaierror\<close> is \<^verbatim>\<open>socket.gaierror\<close>.  The texts of the
  interpreter's own exceptions (AttributeError, TypeError, IndexError, KeyError) are those
  of CPython 3.11; no statement below depends on them.
\<close>

datatype exn =
    TimeoutException string
  | ConnectError string
  | TransportError string
  | Gaierror string
  | UnicodeError string
  | JSONDecodeError string
  | AttributeError string
  | TypeError string
  | IndexError string
  | KeyError string
  | Exception string

fun str_exn :: "exn \<Rightarrow> string" where
  "str_exn (TimeoutException m) = m"
| "str_exn (ConnectError m) = m"
| "str_exn (TransportError m) = m"
| "str_exn (Gaierror m) = m"
| "str_exn (UnicodeError m) = m"
| "str_exn (JSONDecodeError m) = m"
| "str_exn (AttributeError m) = m"
| "str_exn (TypeError m) = m"
| "str_exn (IndexError m) = m"
| "str_exn (KeyError m) = m"
| "str_exn (Exception m) = m"

fun is_timeout :: "exn \<Rightarrow> bool" where
  "is_timeout (TimeoutException m) = True"
| "is_timeout e = False"

fun is_connect_error :: "exn \<Rightarrow> bool" where
  "is_connect_error (ConnectError m) = True"
| "is_connect_error e = False"

fun is_gaierror :: "exn \<Rightarrow> bool" where
  "is_gaierror (Gaierror m) = True"
| "is_gaierror e = False"

text \<open>Sequencing of two computations that may raise.\<close>

definition and_then :: "exn + 'a \<Rightarrow> ('a \<Rightarrow> exn + 'b) \<Rightarrow> exn + 'b" where
  "and_then m f = (case m of Inl e \<Rightarrow> Inl e | Inr x \<Rightarrow> f x)"

subsection \<open>Truth value, \<^verbatim>\<open>or\<close>, \<^verbatim>\<open>.get\<close>\<close>

fun truthy :: "json \<Rightarrow> bool" where
  "truthy JNull = False"
| "truthy (JBool b) = b"
| "truthy (JInt i) = (i \<noteq> 0)"
| "truthy (JFloat r) = (r \<noteq> ''0.0'' \<and> r \<noteq> ''-0.0'')"
| "truthy (JStr s) = (s \<noteq> [])"
| "truthy (JList xs) = (xs \<noteq> [])"
| "truthy (JDict d) = (d \<noteq> [])"

text \<open>\<^verbatim>\<open>a or <rest>\<close>: the right operand is evaluated only when \<open>a\<close> is falsy.\<close>

definition py_or :: "json \<Rightarrow> (exn + json) \<Rightarrow> exn + json" where
  "py_or a rest = (if truthy a then Inr a else rest)"

fun type_name :: "json \<Rightarrow> string" where
  "type_name JNull = ''NoneType''"
| "type_name (JBool b) = ''bool''"
| "type_name (JInt i) = ''int''"
| "type_name (JFloat r) = ''float''"
| "type_name (JStr s) = ''str''"
| "type_name (JList xs) = ''list''"
| "type_name (JDict d) = ''dict''"

definition no_attribute :: "json \<Rightarrow> string \<Rightarrow> exn" where
  "no_attribute v a =
     AttributeError ([CHR 0x27] @ type_name v @ [CHR 0x27] @ '' object has no attribute ''
                     @ [CHR 0x27] @ a @ [CHR 0x27])"

text \<open>\<^verbatim>\<open>v.get(k, dflt)\<close>: only a dict has the method.\<close>

fun py_get :: "json \<Rightarrow> string \<Rightarrow> json \<Rightarrow> exn + json" where
  "py_get (JDict d) k dflt = Inr (case map_of d k of Some x \<Rightarrow> x | None \<Rightarrow> dflt)"
| "py_get v k dflt = Inl (no_attribute v ''get'')"

subsection \<open>Strings\<close>

definition upper_letters :: string where
  "upper_letters = ''ABCDEFGHIJKLMNOPQRSTUVWXYZ'' @
     [CHR 0xC0, CHR 0xC1, CHR 0xC2, CHR 0xC3, CHR 0xC4, CHR 0xC5, CHR 0xC6, CHR 0xC7,
      CHR 0xC8, CHR 0xC9, CHR 0xCA, CHR 0xCB, CHR 0xCC, CHR 0xCD, CHR 0xCE, CHR 0xCF,
      CHR 0xD0, CHR 0xD1, CHR 0xD2, CHR 0xD3, CHR 0xD4, CHR 0xD5, CHR 0xD6,
      CHR 0xD8, CHR 0xD9, CHR 0xDA, CHR 0xDB, CHR 0xDC, CHR 0xDD, CHR 0xDE]"

definition lower_letters :: string where
  "lower_letters = ''abcdefghijklmnopqrstuvwxyz'' @
     [CHR 0xE0, CHR 0xE1, CHR 0xE2, CHR 0xE3, CHR 0xE4, CHR 0xE5, CHR 0xE6, CHR 0xE7,
      CHR 0xE8, CHR 0xE9, CHR 0xEA, CHR 0xEB, CHR 0xEC, CHR 0xED, CHR 0xEE, CHR 0xEF,
      CHR 0xF0, CHR 0xF1, CHR 0xF2, CHR 0xF3, CHR 0xF4, CHR 0xF5, CHR 0xF6,
      CHR 0xF8, CHR 0xF9, CHR 0xFA, CHR 0xFB, CHR 0xFC, CHR 0xFD, CHR 0xFE]"

definition lower_char :: "char \<Rightarrow> char" where
  "lower_char c = (case map_of (zip upper_letters lower_letters) c of Some l \<Rightarrow> l | None \<Rightarrow> c)"

definition upper_char :: "char \<Rightarrow> char" where
  "upper_char c = (case map_of (zip lower_letters upper_letters) c of Some u \<Rightarrow> u | None \<Rightarrow> c)"

text \<open>\<^verbatim>\<open>s.lower()\<close>.\<close>

definition lower :: "string \<Rightarrow> string" where
  "lower s = map lower_char s"

text \<open>
  \<^verbatim>\<open>s.title()\<close>: a cased character is upper-cased after an uncased one and lower-cased
  after a cased one.  Five cased code points below 256 have no upper-case form below 256
  (0xB5, 0xDF, 0xFF) or no case mapping at all (0xAA, 0xBA); \<open>upper_char\<close> leaves them as
  they are.  The only string the code title-cases is the role \<^verbatim>\<open>user\<close> of its own request.
\<close>

definition is_cased :: "char \<Rightarrow> bool" where
  "is_cased c = (c \<in> set upper_letters \<or> c \<in> set lower_letters
                 \<or> c \<in> set [CHR 0xAA, CHR 0xB5, CHR 0xBA, CHR 0xDF, CHR 0xFF])"

fun title_from :: "bool \<Rightarrow> string \<Rightarrow> string" where
  "title_from previous_is_cased [] = []"
| "title_from previous_is_cased (c # cs) =
     (if previous_is_cased then lower_char c else upper_char c) # title_from (is_cased c) cs"

definition title :: "string \<Rightarrow> string" where
  "title s = title_from False s"

text \<open>\<^verbatim>\<open>sub in s\<close> for two strings: \<open>sub\<close> occurs in \<open>s\<close> as a contiguous piece.\<close>

fun py_in_str :: "string \<Rightarrow> string \<Rightarrow> bool" where
  "py_in_str sub [] = (sub = [])"
| "py_in_str sub (c # cs) = (prefix sub (c # cs) \<or> py_in_str sub cs)"

text \<open>\<^verbatim>\<open>sep.join(xs)\<close>.\<close>

fun join :: "string \<Rightarrow> string list \<Rightarrow> string" where
  "join sep [] = []"
| "join sep [x] = x"
| "join sep (x # y # ys) = x @ sep @ join sep (y # ys)"

text \<open>Decimal text of an integer, as \<^verbatim>\<open>str\<close> and an f-string print it.\<close>

fun str_nat :: "nat \<Rightarrow> string" where
  "str_nat n = (if n < 10 then [''0123456789'' ! n]
                else str_nat (n div 10) @ [''0123456789'' ! (n mod 10)])"

declare str_nat.simps [simp del]

definition str_int :: "int \<Rightarrow> string" where
  "str_int i = (if i < 0 then ''-'' @ str_nat (nat (- i)) else str_nat (nat i))"

subsection \<open>\<^verbatim>\<open>str\<close> and \<^verbatim>\<open>repr\<close>\<close>

definition hex2 :: "nat \<Rightarrow> string" where
  "hex2 n = [''0123456789abcdef'' ! (n div 16), ''0123456789abcdef'' ! (n mod 16)]"

definition printable :: "char \<Rightarrow> bool" where
  "printable c = (let n = (of_char c :: nat) in \<not> (n < 32 \<or> (127 \<le> n \<and> n \<le> 160) \<or> n = 173))"

definition repr_char :: "char \<Rightarrow> char \<Rightarrow> string" where
  "repr_char q c =
     (if c = q \<or> c = CHR 0x5C then [CHR 0x5C, c]
      else if c = CHR 0x09 then [CHR 0x5C, CHR ''t'']
      else if c = CHR 0x0A then [CHR 0x5C, CHR ''n'']
      else if c = CHR 0x0D then [CHR 0x5C, CHR ''r'']
      else if \<not> printable c then [CHR 0x5C, CHR ''x''] @ hex2 (of_char c)
      else [c])"

text \<open>
  \<^verbatim>\<open>repr\<close> of a string: single quotes, unless the string has a single quote and no
  double quote.
\<close>

definition repr_str :: "string \<Rightarrow> string" where
  "repr_str s =
     (let q = (if CHR 0x27 \<in> set s \<and> CHR 0x22 \<notin> set s then CHR 0x22 else CHR 0x27)
      in [q] @ concat (map (repr_char q) s) @ [q])"

fun py_repr :: "json \<Rightarrow> string" where
  "py_repr JNull = ''None''"
| "py_repr (JBool b) = (if b then ''True'' else ''False'')"
| "py_repr (JInt i) = str_int i"
| "py_repr (JFloat r) = r"
| "py_repr (JStr s) = repr_str s"
| "py_repr (JList xs) = ''['' @ join '', '' (map py_repr xs) @ '']''"
| "py_repr (JDict d) =
     ''{'' @ join '', '' (map (\<lambda>(k, v). repr_str k @ '': '' @ py_repr v) d) @ ''}''"

text \<open>\<^verbatim>\<open>str(v)\<close>, which is also how an f-string prints \<open>v\<close>.\<close>

fun py_str :: "json \<Rightarrow> string" where
  "py_str (JStr s) = s"
| "py_str v = py_repr v"

subsection \<open>Containers\<close>

text \<open>\<^verbatim>\<open>for m in v\<close>: the items the loop visits, or the TypeError of a value that is not iterable.\<close>

fun py_iter :: "json \<Rightarrow> exn + json list" where
  "py_iter (JList xs) = Inr xs"
| "py_iter (JDict d) = Inr (map (\<lambda>kv. JStr (fst kv)) d)"
| "py_iter (JStr s) = Inr (map (\<lambda>c. JStr [c]) s)"
| "py_iter v = Inl (TypeError ([CHR 0x27] @ type_name v @ [CHR 0x27] @ '' object is not iterable''))"

text \<open>\<^verbatim>\<open>k in v\<close> for a string \<open>k\<close>: substring, list membership or dict key.\<close>

fun py_in :: "string \<Rightarrow> json \<Rightarrow> exn + bool" where
  "py_in k (JStr s) = Inr (py_in_str k s)"
| "py_in k (JList xs) = Inr (JStr k \<in> set xs)"
| "py_in k (JDict d) = Inr (k \<in> set (map fst d))"
| "py_in k v = Inl (TypeError (''argument of type '' @ [CHR 0x27] @ type_name v @ [CHR 0x27]
                               @ '' is not iterable''))"

text \<open>\<^verbatim>\<open>v.lower()\<close>: only a string has the method.\<close>

fun py_lower :: "json \<Rightarrow> exn + string" where
  "py_lower (JStr s) = Inr (lower s)"
| "py_lower v = Inl (no_attribute v ''lower'')"

fun py_title :: "json \<Rightarrow> exn + string" where
  "py_title (JStr s) = Inr (title s)"
| "py_title v = Inl (no_attribute v ''title'')"

text \<open>\<^verbatim>\<open>v[:n]\<close>: a string or a list is cut; a dict refuses the slice as a key.\<close>

fun py_slice_to :: "nat \<Rightarrow> json \<Rightarrow> exn + json" where
  "py_slice_to n (JStr s) = Inr (JStr (take n s))"
| "py_slice_to n (JList xs) = Inr (JList (take n xs))"
| "py_slice_to n (JDict d) = Inl (TypeError (''unhashable type: '' @ [CHR 0x27] @ ''slice'' @ [CHR 0x27]))"
| "py_slice_to n v = Inl (TypeError ([CHR 0x27] @ type_name v @ [CHR 0x27] @ '' object is not subscriptable''))"

text \<open>\<^verbatim>\<open>v[0]\<close>.\<close>

fun py_first :: "json \<Rightarrow> exn + json" where
  "py_first (JList xs) = (case xs of [] \<Rightarrow> Inl (IndexError ''list index out of range'') | x # _ \<Rightarrow> Inr x)"
| "py_first (JStr s) = (case s of [] \<Rightarrow> Inl (IndexError ''string index out of range'') | c # _ \<Rightarrow> Inr (JStr [c]))"
| "py_first (JDict d) = Inl (KeyError ''0'')"
| "py_first v = Inl (TypeError ([CHR 0x27] @ type_name v @ [CHR 0x27] @ '' object is not subscriptable''))"

section \<open>The world outside the module\<close>

text \<open>
  An HTTP response as the code reads it: the status code, the body text and what
  \<^verbatim>\<open>response.json()\<close> gives (the decoded body, or the exception of an undecodable one).
  The decoder is httpx's, so its outcome is a field of its own.
\<close>

record response =
  status_code :: int
  resp_text :: string
  resp_json :: "exn + json"

type_synonym headers = "(string \<times> string) list"

text \<open>
  What one call of a function depends on: the name service behind
  \<^verbatim>\<open>socket.gethostbyname\<close> (it returns an address or raises), the configured
  \<^verbatim>\<open>INTERNAL_VLLM_API_KEY\<close>, and the shared HTTP client, whose \<^verbatim>\<open>get\<close> and \<^verbatim>\<open>post\<close>
  answer a request with a response or raise.  Within one call every request goes to a
  different URL, so the client is a function of the request.  The timeouts passed with each
  request are not modelled; a request that runs out of time is the answer \<open>Inl (TimeoutException m)\<close>.
  Importing the client and loading the settings (lines 216-218) are taken to succeed.
\<close>

record env =
  gethostbyname :: "string \<Rightarrow> exn + string"
  INTERNAL_VLLM_API_KEY :: "string option"
  http_get :: "string \<Rightarrow> headers \<Rightarrow> exn + response"
  http_post :: "string \<Rightarrow> json \<Rightarrow> headers \<Rightarrow> exn + response"

record ReadinessResp =
  status :: string
  detail :: "string option"

section \<open>\<^verbatim>\<open>check_model_readiness\<close>\<close>

subsection \<open>Base URL (lines 202-213)\<close>

text \<open>
  Only \<^verbatim>\<open>socket.gaierror\<close> is caught, and the block stands before the outer \<^verbatim>\<open>try\<close>:
  any other exception of the lookup leaves the function.  \<^verbatim>\<open>if host_port:\<close> is false for
  \<^verbatim>\<open>None\<close> and for 0.
\<close>

definition resolve_base_url :: "env \<Rightarrow> string \<Rightarrow> int option \<Rightarrow> exn + string" where
  "resolve_base_url env container_name host_port =
     (case gethostbyname env container_name of
        Inr addr \<Rightarrow> Inr (''http://'' @ container_name @ '':8000'')
      | Inl e \<Rightarrow>
          if is_gaierror e then
            (case host_port of
               Some p \<Rightarrow> if p \<noteq> 0 then Inr (''http://127.0.0.1:'' @ str_int p)
                         else Inr ''http://127.0.0.1:8000''
             | None \<Rightarrow> Inr ''http://127.0.0.1:8000'')
          else Inl e)"

subsection \<open>Phase 1: the health endpoint (lines 221-253)\<close>

text \<open>Lines 235-239: the message of a 503 health response.\<close>

definition health_message :: "response \<Rightarrow> string" where
  "health_message health_resp =
     (case and_then (resp_json health_resp) (\<lambda>j.
             and_then (py_get j ''detail'' JNull) (\<lambda>d. py_or d (
             and_then (py_get j ''error'' JNull) (\<lambda>e. py_or e (
             and_then (py_get j ''message'' JNull) (\<lambda>m. py_or m (Inr (JStr [])))))))) of
        Inr v \<Rightarrow> py_str v
      | Inl ex \<Rightarrow> take 200 (resp_text health_resp))"

text \<open>
  The phase returns a result (\<open>Some\<close>) or falls through to the next phase (\<open>None\<close>); its
  last handler swallows every other exception, so it never raises.
\<close>

definition phase1 :: "env \<Rightarrow> string \<Rightarrow> ReadinessResp option" where
  "phase1 env base_url =
     (case http_get env (base_url @ ''/health'') [] of
        Inr health_resp \<Rightarrow>
          if status_code health_resp = 200 then Some \<lparr>status = ''ready'', detail = None\<rparr>
          else if status_code health_resp = 503 then
            (let msg = health_message health_resp in
             if py_in_str ''loading'' (lower msg) \<or> py_in_str ''initializing'' (lower msg)
             then Some \<lparr>status = ''loading'', detail = Some ''model_loading''\<rparr>
             else Some \<lparr>status = ''loading'', detail = Some (''health_503: '' @ take 100 msg)\<rparr>)
          else None
      | Inl e \<Rightarrow>
          if is_timeout e then Some \<lparr>status = ''loading'', detail = Some ''health_timeout''\<rparr>
          else if is_connect_error e then Some \<lparr>status = ''loading'', detail = Some ''connection_refused''\<rparr>
          else None)"

subsection \<open>Phase 2: the model listing (lines 255-296)\<close>

text \<open>Lines 269-271: the loop over the listed models; \<open>Inr True\<close> is the \<^verbatim>\<open>return\<close> inside it.\<close>

fun find_model :: "json list \<Rightarrow> string \<Rightarrow> exn + bool" where
  "find_model [] served_model_name = Inr False"
| "find_model (m # ms) served_model_name =
     (case py_get m ''id'' JNull of
        Inl e \<Rightarrow> Inl e
      | Inr i \<Rightarrow> if i = JStr served_model_name then Inr True else find_model ms served_model_name)"

text \<open>
  Lines 265-278, the answer to a 200: the inner \<^verbatim>\<open>try\<close> returns ready on a match and
  loading on a falsy list; when it raises or finds neither, line 278 returns ready.
\<close>

definition models_listed :: "response \<Rightarrow> string \<Rightarrow> ReadinessResp" where
  "models_listed models_resp served_model_name =
     (case and_then (resp_json models_resp) (\<lambda>data.
             and_then (py_get data ''data'' (JList [])) (\<lambda>models.
             and_then (py_iter models) (\<lambda>ms.
             and_then (find_model ms served_model_name) (\<lambda>found.
               if found then Inr (Some \<lparr>status = ''ready'', detail = None\<rparr>)
               else if \<not> truthy models
                 then Inr (Some \<lparr>status = ''loading'', detail = Some ''models_list_empty''\<rparr>)
               else Inr None)))) of
        Inr (Some r) \<Rightarrow> r
      | Inr None \<Rightarrow> \<lparr>status = ''ready'', detail = None\<rparr>
      | Inl ex \<Rightarrow> \<lparr>status = ''ready'', detail = None\<rparr>)"

text \<open>Lines 281-285: the message of a 503 listing response.\<close>

definition models_message :: "response \<Rightarrow> json" where
  "models_message models_resp =
     (case and_then (resp_json models_resp) (\<lambda>j.
             and_then (py_get (if truthy j then j else JDict []) ''error'' (JDict [])) (\<lambda>e.
             py_get e ''message'' (JStr []))) of
        Inr msg \<Rightarrow> msg
      | Inl ex \<Rightarrow> JStr (take 200 (resp_text models_resp)))"

text \<open>Lines 287-289, which may raise when the message is not a string.\<close>

definition models_unavailable :: "json \<Rightarrow> exn + ReadinessResp" where
  "models_unavailable msg =
     and_then (py_in ''Loading model'' msg) (\<lambda>a.
       if a then Inr \<lparr>status = ''loading'', detail = Some ''loading_model''\<rparr>
       else and_then (py_lower msg) (\<lambda>l.
         if py_in_str ''loading'' l then Inr \<lparr>status = ''loading'', detail = Some ''loading_model''\<rparr>
         else and_then (py_slice_to 100 msg) (\<lambda>cut.
           Inr \<lparr>status = ''loading'', detail = Some (''503: '' @ py_str cut)\<rparr>)))"

definition phase2 :: "env \<Rightarrow> string \<Rightarrow> string \<Rightarrow> string \<Rightarrow> ReadinessResp option" where
  "phase2 env base_url api_key served_model_name =
     (case and_then (http_get env (base_url @ ''/v1/models'') [(''Authorization'', ''Bearer '' @ api_key)])
             (\<lambda>models_resp.
                if status_code models_resp = 200 then Inr (Some (models_listed models_resp served_model_name))
                else if status_code models_resp = 503
                  then and_then (models_unavailable (models_message models_resp)) (\<lambda>r. Inr (Some r))
                else Inr None) of
        Inr res \<Rightarrow> res
      | Inl e \<Rightarrow>
          if is_timeout e then Some \<lparr>status = ''loading'', detail = Some ''models_timeout''\<rparr>
          else if is_connect_error e then Some \<lparr>status = ''loading'', detail = Some ''connection_refused''\<rparr>
          else None)"

subsection \<open>Phase 3: a one-token chat completion (lines 298-332)\<close>

definition probe_request :: "string \<Rightarrow> json" where
  "probe_request served_model_name =
     JDict [(''model'', JStr served_model_name),
            (''messages'', JList [JDict [(''role'', JStr ''user''), (''content'', JStr ''Hi'')]]),
            (''max_tokens'', JInt 1),
            (''temperature'', JFloat ''0.0'')]"

text \<open>Lines 322-326: the message of a 503 answer to the probe.\<close>

definition probe_message :: "response \<Rightarrow> json" where
  "probe_message r =
     (case and_then (resp_json r) (\<lambda>j.
             and_then (py_get (if truthy j then j else JDict []) ''error'' (JDict [])) (\<lambda>e.
             py_get e ''message'' (JStr []))) of
        Inr msg \<Rightarrow> msg
      | Inl ex \<Rightarrow> JStr (take 200 (resp_text r)))"

text \<open>The phase has no handler of its own: what it raises reaches the outer handlers.\<close>

definition phase3 :: "env \<Rightarrow> string \<Rightarrow> string \<Rightarrow> string \<Rightarrow> exn + ReadinessResp" where
  "phase3 env base_url api_key served_model_name =
     and_then (http_post env (base_url @ ''/v1/chat/completions'') (probe_request served_model_name)
                 [(''Content-Type'', ''application/json''), (''Authorization'', ''Bearer '' @ api_key)])
       (\<lambda>r.
          if status_code r = 200 then Inr \<lparr>status = ''ready'', detail = None\<rparr>
          else if status_code r = 503 then
            (let msg = probe_message r in
             and_then (py_in ''Loading model'' msg) (\<lambda>a.
               if a then Inr \<lparr>status = ''loading'', detail = Some ''loading_model''\<rparr>
               else and_then (py_slice_to 100 msg) (\<lambda>cut.
                 Inr \<lparr>status = ''error'', detail = Some (''503: '' @ py_str cut)\<rparr>)))
          else Inr \<lparr>status = ''error'', detail = Some (''HTTP '' @ str_int (status_code r))\<rparr>)"

subsection \<open>The whole function\<close>

text \<open>Lines 334-340: the handlers of the outer \<^verbatim>\<open>try\<close>.\<close>

definition outer_handler :: "exn \<Rightarrow> ReadinessResp" where
  "outer_handler e =
     (if is_timeout e then \<lparr>status = ''loading'', detail = Some ''request_timeout''\<rparr>
      else if is_connect_error e then \<lparr>status = ''loading'', detail = Some ''connection_refused''\<rparr>
      else \<lparr>status = ''error'', detail = Some (take 200 (str_exn e))\<rparr>)"

text \<open>Line 219: \<^verbatim>\<open>settings.INTERNAL_VLLM_API_KEY or "dev-internal-token"\<close>.\<close>

definition internal_api_key :: "env \<Rightarrow> string" where
  "internal_api_key env =
     (case INTERNAL_VLLM_API_KEY env of
        Some k \<Rightarrow> if k \<noteq> [] then k else ''dev-internal-token''
      | None \<Rightarrow> ''dev-internal-token'')"

text \<open>\<open>Inl e\<close>: the call raises \<open>e\<close> to its caller.  \<open>Inr r\<close>: it returns \<open>r\<close>.\<close>

definition check_model_readiness :: "env \<Rightarrow> string \<Rightarrow> string \<Rightarrow> int option \<Rightarrow> exn + ReadinessResp" where
  "check_model_readiness env container_name served_model_name host_port =
     and_then (resolve_base_url env container_name host_port) (\<lambda>base_url.
       let api_key = internal_api_key env in
       case phase1 env base_url of
         Some r \<Rightarrow> Inr r
       | None \<Rightarrow>
           (case phase2 env base_url api_key served_model_name of
              Some r \<Rightarrow> Inr r
            | None \<Rightarrow>
                (case phase3 env base_url api_key served_model_name of
                   Inr r \<Rightarrow> Inr r
                 | Inl e \<Rightarrow> Inr (outer_handler e))))"

section \<open>\<^verbatim>\<open>test_chat_model\<close>\<close>

definition chat_request :: "string \<Rightarrow> json" where
  "chat_request model_name =
     JDict [(''model'', JStr model_name),
            (''messages'', JList [JDict [(''role'', JStr ''user''), (''content'', JStr ''Hello'')]]),
            (''max_tokens'', JInt 50),
            (''temperature'', JFloat ''0.7'')]"

text \<open>Lines 48-50 and 153-155: \<^verbatim>\<open>if internal_key:\<close> is false for the empty string.\<close>

definition request_headers :: "string \<Rightarrow> headers" where
  "request_headers internal_key =
     [(''Content-Type'', ''application/json'')]
     @ (if internal_key \<noteq> [] then [(''Authorization'', ''Bearer '' @ internal_key)] else [])"

definition http_error :: "response \<Rightarrow> exn" where
  "http_error r =
     Exception (''Model returned HTTP '' @ str_int (status_code r) @ '': '' @ take 200 (resp_text r))"

text \<open>Lines 63-64: the lower-cased message of the error response; decoding may raise.\<close>

definition chat_message :: "response \<Rightarrow> exn + string" where
  "chat_message response =
     and_then (resp_json response) (\<lambda>err.
     and_then (py_get err ''message'' JNull) (\<lambda>m.
     and_then (py_or m (
       and_then (py_get err ''error'' JNull) (\<lambda>e. py_or e (Inr (JStr []))))) (\<lambda>v.
     Inr (lower (py_str v)))))"

text \<open>Line 70: one message as \<^verbatim>\<open>Role: content\<close>.\<close>

definition format_message :: "json \<Rightarrow> exn + string" where
  "format_message m =
     and_then (py_get m ''role'' (JStr ''user'')) (\<lambda>role.
     and_then (py_title role) (\<lambda>t.
     and_then (py_get m ''content'' (JStr [])) (\<lambda>content.
     Inr (t @ '': '' @ py_str content))))"

fun format_messages :: "json list \<Rightarrow> exn + string list" where
  "format_messages [] = Inr []"
| "format_messages (m # ms) =
     (case format_message m of
        Inl e \<Rightarrow> Inl e
      | Inr x \<Rightarrow> (case format_messages ms of Inl e \<Rightarrow> Inl e | Inr xs \<Rightarrow> Inr (x # xs)))"

text \<open>Lines 68-72; \<open>CHR 0x0A\<close> is the newline.\<close>

definition completion_prompt :: "json \<Rightarrow> exn + string" where
  "completion_prompt request_data =
     and_then (py_get request_data ''messages'' (JList [])) (\<lambda>messages.
     and_then (py_iter messages) (\<lambda>ms.
     and_then (format_messages ms) (\<lambda>parts.
     Inr (join [CHR 0x0A, CHR 0x0A] parts @ [CHR 0x0A, CHR 0x0A] @ ''Assistant:''))))"

text \<open>Lines 74-79.\<close>

definition completion_request :: "string \<Rightarrow> json \<Rightarrow> exn + json" where
  "completion_request model_name request_data =
     and_then (completion_prompt request_data) (\<lambda>prompt.
     and_then (py_get request_data ''max_tokens'' (JInt 50)) (\<lambda>max_tokens.
     and_then (py_get request_data ''temperature'' (JFloat ''0.7'')) (\<lambda>temperature.
     Inr (JDict [(''model'', JStr model_name),
                 (''prompt'', JStr prompt),
                 (''max_tokens'', max_tokens),
                 (''temperature'', temperature)]))))"

text \<open>Lines 94-108: the completion answer in the shape of a chat answer.\<close>

definition as_chat_response :: "string \<Rightarrow> json \<Rightarrow> exn + json" where
  "as_chat_response model_name comp_data =
     and_then (py_get comp_data ''id'' JNull) (\<lambda>ident.
     and_then (py_get comp_data ''created'' JNull) (\<lambda>created.
     and_then (py_get comp_data ''model'' (JStr model_name)) (\<lambda>model.
     and_then (py_get comp_data ''choices'' (JList [JDict []])) (\<lambda>choices.
     and_then (py_first choices) (\<lambda>choice.
     and_then (py_get choice ''text'' (JStr [])) (\<lambda>content.
     and_then (py_get comp_data ''choices'' (JList [JDict []])) (\<lambda>choices'.
     and_then (py_first choices') (\<lambda>choice'.
     and_then (py_get choice' ''finish_reason'' JNull) (\<lambda>finish_reason.
     and_then (py_get comp_data ''usage'' JNull) (\<lambda>usage.
     Inr (JDict [(''id'', ident),
                 (''object'', JStr ''chat.completion''),
                 (''created'', created),
                 (''model'', model),
                 (''choices'', JList [JDict [
                    (''index'', JInt 0),
                    (''message'', JDict [(''role'', JStr ''assistant''), (''content'', content)]),
                    (''finish_reason'', finish_reason)]]),
                 (''usage'', usage)])))))))))))"

text \<open>
  Lines 62-113, the body of the \<^verbatim>\<open>try\<close>: \<open>Inr (Some d)\<close> is its \<^verbatim>\<open>return\<close>,
  \<open>Inr None\<close> is leaving it without one, \<open>Inl e\<close> is an exception, which line 114 swallows.
\<close>

definition completions_fallback ::
  "env \<Rightarrow> string \<Rightarrow> string \<Rightarrow> headers \<Rightarrow> json \<Rightarrow> response \<Rightarrow> exn + json option" where
  "completions_fallback env base_url model_name hdrs request_data response =
     and_then (chat_message response) (\<lambda>msg.
       if py_in_str ''chat template'' msg then
         and_then (completion_request model_name request_data) (\<lambda>comp_request.
         and_then (http_post env (base_url @ ''/v1/completions'') comp_request hdrs) (\<lambda>comp_response.
           if status_code comp_response \<ge> 400 then Inl (http_error comp_response)
           else
             and_then (resp_json comp_response) (\<lambda>comp_data.
             and_then (as_chat_response model_name comp_data) (\<lambda>response_data.
             Inr (Some (JDict [(''request'', request_data), (''response'', response_data)]))))))
       else Inr None)"

definition test_chat_model :: "env \<Rightarrow> string \<Rightarrow> string \<Rightarrow> string \<Rightarrow> exn + json" where
  "test_chat_model env base_url model_name internal_key =
     (let request_data = chat_request model_name;
          hdrs = request_headers internal_key
      in and_then (http_post env (base_url @ ''/v1/chat/completions'') request_data hdrs) (\<lambda>response.
           if status_code response \<ge> 400 then
             (case completions_fallback env base_url model_name hdrs request_data response of
                Inr (Some result) \<Rightarrow> Inr result
              | Inr None \<Rightarrow> Inl (http_error response)
              | Inl swallowed \<Rightarrow> Inl (http_error response))
           else
             and_then (resp_json response) (\<lambda>response_data.
             and_then (py_get response_data ''choices'' JNull) (\<lambda>choices.
               if \<not> truthy choices
               then Inl (Exception (''Invalid response: missing '' @ [CHR 0x27] @ ''choices''
                                    @ [CHR 0x27] @ '' field''))
               else Inr (JDict [(''request'', request_data), (''response'', response_data)])))))"

section \<open>\<^verbatim>\<open>test_embedding_model\<close>\<close>

definition embedding_request :: "string \<Rightarrow> json" where
  "embedding_request model_name = JDict [(''model'', JStr model_name), (''input'', JStr ''test'')]"

fun is_list :: "json \<Rightarrow> bool" where
  "is_list (JList xs) = True"
| "is_list v = False"

text \<open>\<^verbatim>\<open>v[k]\<close> for a string key.\<close>

fun py_item :: "json \<Rightarrow> string \<Rightarrow> exn + json" where
  "py_item (JDict d) k = (case map_of d k of Some x \<Rightarrow> Inr x | None \<Rightarrow> Inl (KeyError (repr_str k)))"
| "py_item (JList xs) k = Inl (TypeError ''list indices must be integers or slices, not str'')"
| "py_item (JStr s) k = Inl (TypeError ''string indices must be integers'')"
| "py_item v k = Inl (TypeError ([CHR 0x27] @ type_name v @ [CHR 0x27] @ '' object is not subscriptable''))"

definition test_embedding_model :: "env \<Rightarrow> string \<Rightarrow> string \<Rightarrow> string \<Rightarrow> exn + json" where
  "test_embedding_model env base_url model_name internal_key =
     (let request_data = embedding_request model_name;
          hdrs = request_headers internal_key
      in and_then (http_post env (base_url @ ''/v1/embeddings'') request_data hdrs) (\<lambda>response.
           if status_code response \<ge> 400 then Inl (http_error response)
           else
             and_then (resp_json response) (\<lambda>response_data.
             and_then (py_get response_data ''data'' JNull) (\<lambda>got.
             and_then (if \<not> truthy got then Inr True
                       else and_then (py_item response_data ''data'') (\<lambda>d. Inr (\<not> is_list d))) (\<lambda>invalid.
               if invalid
               then Inl (Exception (''Invalid response: missing or invalid '' @ [CHR 0x27] @ ''data''
                                    @ [CHR 0x27] @ '' field''))
               else
                 and_then (py_item response_data ''data'') (\<lambda>d.
                 and_then (py_first d) (\<lambda>first.
                 and_then (py_get first ''embedding'' JNull) (\<lambda>embedding.
                   if \<not> truthy embedding
                   then Inl (Exception (''Invalid response: missing '' @ [CHR 0x27] @ ''embedding''
                                        @ [CHR 0x27] @ '' in data''))
                   else Inr (JDict [(''request'', request_data), (''response'', response_data)])))))))))"

section \<open>Example backends\<close>

text \<open>
  Concrete worlds on which the theorems below are tried: a routing table answers the
  requests (a URL that is not in the table refuses the connection), and two name services,
  that of the Docker bridge network, where the container name resolves, and that of the
  host network, where it does not.
\<close>

definition serve :: "(string \<times> (exn + response)) list \<Rightarrow> string \<Rightarrow> exn + response" where
  "serve routes url =
     (case map_of routes url of
        Some answer \<Rightarrow> answer
      | None \<Rightarrow> Inl (ConnectError ''All connection attempts failed''))"

definition backend ::
  "(string \<Rightarrow> exn + string) \<Rightarrow> (string \<times> (exn + response)) list
     \<Rightarrow> (string \<times> (exn + response)) list \<Rightarrow> env" where
  "backend dns gets posts =
     \<lparr>gethostbyname = dns, INTERNAL_VLLM_API_KEY = None,
      http_get = (\<lambda>url hdrs. serve gets url),
      http_post = (\<lambda>url body hdrs. serve posts url)\<rparr>"

text \<open>
  \<^verbatim>\<open>socket.gethostbyname\<close> first encodes its argument with the \<^verbatim>\<open>idna\<close> codec.  For an
  ASCII name the codec splits the name at the dots and raises a UnicodeError when a label
  before the last one is empty or has 64 characters or more, or when the last label has 64
  characters or more; the lookup itself never happens then.
\<close>

fun split_on_dot :: "string \<Rightarrow> string list" where
  "split_on_dot [] = [[]]"
| "split_on_dot (c # cs) =
     (if c = CHR ''.'' then [] # split_on_dot cs
      else (case split_on_dot cs of l # ls \<Rightarrow> (c # l) # ls | [] \<Rightarrow> [[c]]))"

definition idna_refusal :: "string \<Rightarrow> exn option" where
  "idna_refusal name =
     (let labels = split_on_dot name in
      if list_ex (\<lambda>l. l = [] \<or> 64 \<le> length l) (butlast labels)
      then Some (UnicodeError ''encoding with 'idna' codec failed (UnicodeError: label empty or too long)'')
      else if 64 \<le> length (last labels)
      then Some (UnicodeError ''encoding with 'idna' codec failed (UnicodeError: label too long)'')
      else None)"

definition bridge_dns :: "string \<Rightarrow> exn + string" where
  "bridge_dns name =
     (case idna_refusal name of
        Some e \<Rightarrow> Inl e
      | None \<Rightarrow> Inr ''172.18.0.5'')"

definition host_dns :: "string \<Rightarrow> exn + string" where
  "host_dns name =
     (case idna_refusal name of
        Some e \<Rightarrow> Inl e
      | None \<Rightarrow> Inl (Gaierror ''[Errno -2] Name or service not known''))"

text \<open>
  What an example server sends: a JSON body in a compact rendering (the example strings
  need no escapes), or a plain text body, which \<^verbatim>\<open>response.json()\<close> refuses.
\<close>

fun dumps :: "json \<Rightarrow> string" where
  "dumps JNull = ''null''"
| "dumps (JBool b) = (if b then ''true'' else ''false'')"
| "dumps (JInt i) = str_int i"
| "dumps (JFloat r) = r"
| "dumps (JStr s) = [CHR 0x22] @ s @ [CHR 0x22]"
| "dumps (JList xs) = ''['' @ join '', '' (map dumps xs) @ '']''"
| "dumps (JDict d) =
     ''{'' @ join '', '' (map (\<lambda>(k, v). [CHR 0x22] @ k @ [CHR 0x22] @ '': '' @ dumps v) d) @ ''}''"

definition json_reply :: "int \<Rightarrow> json \<Rightarrow> response" where
  "json_reply code body = \<lparr>status_code = code, resp_text = dumps body, resp_json = Inr body\<rparr>"

definition text_reply :: "int \<Rightarrow> string \<Rightarrow> response" where
  "text_reply code body =
     \<lparr>status_code = code, resp_text = body,
      resp_json = Inl (JSONDecodeError ''Expecting value: line 1 column 1 (char 0)'')\<rparr>"

text \<open>The routes of the example container \<^verbatim>\<open>vllm-model-1\<close>.\<close>

definition health_route :: "exn + response \<Rightarrow> string \<times> (exn + response)" where
  "health_route answer = (''http://vllm-model-1:8000/health'', answer)"

definition models_route :: "exn + response \<Rightarrow> string \<times> (exn + response)" where
  "models_route answer = (''http://vllm-model-1:8000/v1/models'', answer)"

definition chat_route :: "exn + response \<Rightarrow> string \<times> (exn + response)" where
  "chat_route answer = (''http://vllm-model-1:8000/v1/chat/completions'', answer)"

definition completions_route :: "exn + response \<Rightarrow> string \<times> (exn + response)" where
  "completions_route answer = (''http://vllm-model-1:8000/v1/completions'', answer)"

definition embeddings_route :: "exn + response \<Rightarrow> string \<times> (exn + response)" where
  "embeddings_route answer = (''http://vllm-model-1:8000/v1/embeddings'', answer)"

text \<open>A backend without a health endpoint, and one without a model listing either.\<close>

definition no_health :: "string \<times> (exn + response)" where
  "no_health = health_route (Inr (text_reply 404 ''Not Found''))"

definition no_models :: "string \<times> (exn + response)" where
  "no_models = models_route (Inr (text_reply 404 ''Not Found''))"

section \<open>The message normalizer of the specification\<close>

text \<open>
  The specification describes one routine that reads the message of an error body: it
  tries the key paths \<^verbatim>\<open>detail\<close>, \<^verbatim>\<open>error\<close> as a string, \<^verbatim>\<open>error.message\<close> and
  \<^verbatim>\<open>message\<close> in this order and returns the first match, or the empty string.  The module
  has no such function.  The definition below follows the specification's words, to be
  compared with the four expressions of the code: \<open>chat_message\<close>, \<open>health_message\<close>,
  \<open>models_message\<close> and \<open>probe_message\<close>.
\<close>

fun string_at :: "json \<Rightarrow> string list \<Rightarrow> string option" where
  "string_at (JStr s) [] = Some s"
| "string_at (JDict d) (k # ks) = (case map_of d k of Some v \<Rightarrow> string_at v ks | None \<Rightarrow> None)"
| "string_at v ks = None"

definition spec_normalizer :: "json \<Rightarrow> string" where
  "spec_normalizer body =
     (case List.map_filter (string_at body)
             [[''detail''], [''error''], [''error'', ''message''], [''message'']] of
        s # others \<Rightarrow> s
      | [] \<Rightarrow> [])"

text \<open>An error body that carries all three top-level keys.\<close>

definition mixed_error_body :: json where
  "mixed_error_body =
     JDict [(''detail'', JStr ''starting''),
            (''error'', JDict [(''message'', JStr ''Loading model'')]),
            (''message'', JStr ''no chat template'')]"

section \<open>Basic facts\<close>

lemma and_then_simps [simp]:
  "and_then (Inl e) f = Inl e"
  "and_then (Inr x) f = f x"
  by (simp_all add: and_then_def)

text \<open>\<open>py_in_str\<close> is the substring test.\<close>

lemma py_in_str_iff: "py_in_str sub s \<longleftrightarrow> (\<exists>ps ss. s = ps @ sub @ ss)"
proof (induction s)
  case Nil
  then show ?case by auto
next
  case (Cons c cs)
  show ?case
  proof
    assume "py_in_str sub (c # cs)"
    then consider "prefix sub (c # cs)" | "py_in_str sub cs" by auto
    then show "\<exists>ps ss. c # cs = ps @ sub @ ss"
    proof cases
      case 1
      then obtain ss where "c # cs = sub @ ss" by (auto simp: prefix_def)
      then have "c # cs = [] @ sub @ ss" by simp
      then show ?thesis by blast
    next
      case 2
      with Cons.IH obtain ps ss where "cs = ps @ sub @ ss" by blast
      then have "c # cs = (c # ps) @ sub @ ss" by simp
      then show ?thesis by blast
    qed
  next
    assume "\<exists>ps ss. c # cs = ps @ sub @ ss"
    then obtain ps ss where eq: "c # cs = ps @ sub @ ss" by blast
    show "py_in_str sub (c # cs)"
    proof (cases ps)
      case Nil
      with eq have "prefix sub (c # cs)" by (simp add: prefix_def)
      then show ?thesis by simp
    next
      case (Cons p ps')
      with eq have "cs = ps' @ sub @ ss" by simp
      with Cons.IH have "py_in_str sub cs" by blast
      then show ?thesis by simp
    qed
  qed
qed

lemma json_reply_simps [simp]:
  "status_code (json_reply code body) = code"
  "resp_text (json_reply code body) = dumps body"
  "resp_json (json_reply code body) = Inr body"
  by (simp_all add: json_reply_def)

lemma text_reply_simps [simp]:
  "status_code (text_reply code body) = code"
  "resp_text (text_reply code body) = body"
  "resp_json (text_reply code body) = Inl (JSONDecodeError ''Expecting value: line 1 column 1 (char 0)'')"
  by (simp_all add: text_reply_def)

lemma backend_simps [simp]:
  "gethostbyname (backend dns gets posts) = dns"
  "INTERNAL_VLLM_API_KEY (backend dns gets posts) = None"
  "http_get (backend dns gets posts) url hdrs = serve gets url"
  "http_post (backend dns gets posts) url body hdrs = serve posts url"
  by (simp_all add: backend_def)

lemma split_on_dot_no_dot: "CHR ''.'' \<notin> set s \<Longrightarrow> split_on_dot s = [s]"
  by (induction s) auto

lemma idna_refusal_long_label:
  "CHR ''.'' \<notin> set s \<Longrightarrow> 64 \<le> length s \<Longrightarrow>
     idna_refusal s = Some (UnicodeError ''encoding with 'idna' codec failed (UnicodeError: label too long)'')"
  by (simp add: idna_refusal_def split_on_dot_no_dot)

lemma container_name_accepted [simp]: "idna_refusal ''vllm-model-1'' = None"
  by (simp add: idna_refusal_def)

lemma bridge_resolved [simp]:
  "resolve_base_url (backend bridge_dns gets posts) ''vllm-model-1'' host_port = Inr ''http://vllm-model-1:8000''"
  by (simp add: resolve_base_url_def bridge_dns_def)

lemmas lower_simps = lower_def lower_char_def upper_letters_def lower_letters_def

lemmas route_defs = health_route_def models_route_def chat_route_def completions_route_def
  embeddings_route_def no_health_def no_models_def

lemma serve_simps [simp]:
  "serve [] url = Inl (ConnectError ''All connection attempts failed'')"
  "serve ((u, answer) # routes) url = (if url = u then answer else serve routes url)"
  by (simp_all add: serve_def)

section \<open>Address resolution\<close>

text \<open>
  C7, as the specification states it: for every combination of a resolvable or unresolvable
  container name and a present or absent fallback port, the base URL is the resolved name
  on port 8000, else loopback with the fallback port when one was supplied, else loopback
  on port 8000.  The statement fails for a supplied port 0: line 209 tests the truth value
  of \<^verbatim>\<open>host_port\<close>, so port 0 counts as absent and the URL is loopback on port 8000.
\<close>

theorem fallback_port_zero_counterexample:
  "resolve_base_url (backend host_dns [] []) ''vllm-model-1'' (Some 0) = Inr ''http://127.0.0.1:8000''
   \<and> resolve_base_url (backend host_dns [] []) ''vllm-model-1'' (Some 0)
       \<noteq> Inr (''http://127.0.0.1:'' @ str_int 0)"
  by (simp add: resolve_base_url_def backend_def host_dns_def str_int_def str_nat.simps)

text \<open>
  C7, amended: when the name resolves, the base URL is the name on port 8000; when the
  lookup fails with \<^verbatim>\<open>socket.gaierror\<close>, it is loopback with the fallback port if one was
  supplied and is not 0, and loopback on port 8000 if none was supplied or it is 0.  In
  each of these cases a base URL is produced.
\<close>

theorem resolve_base_url_precedence:
  "(gethostbyname env container_name = Inr addr \<longrightarrow>
      resolve_base_url env container_name host_port = Inr (''http://'' @ container_name @ '':8000''))
   \<and> (gethostbyname env container_name = Inl (Gaierror m) \<and> host_port = Some p \<and> p \<noteq> 0 \<longrightarrow>
      resolve_base_url env container_name host_port = Inr (''http://127.0.0.1:'' @ str_int p))
   \<and> (gethostbyname env container_name = Inl (Gaierror m) \<and> (host_port = None \<or> host_port = Some 0) \<longrightarrow>
      resolve_base_url env container_name host_port = Inr ''http://127.0.0.1:8000'')"
  by (auto simp: resolve_base_url_def)

theorem resolve_base_url_precedence_witness:
  "resolve_base_url (backend bridge_dns [] []) ''vllm-model-1'' (Some 8001) = Inr ''http://vllm-model-1:8000''
   \<and> resolve_base_url (backend host_dns [] []) ''vllm-model-1'' (Some 8001)
       = Inr (''http://127.0.0.1:'' @ str_int 8001)
   \<and> resolve_base_url (backend host_dns [] []) ''vllm-model-1'' None = Inr ''http://127.0.0.1:8000''"
  using resolve_base_url_precedence [where env = "backend bridge_dns [] []"
      and container_name = "''vllm-model-1''" and addr = "''172.18.0.5''" and host_port = "Some 8001"]
    resolve_base_url_precedence [where env = "backend host_dns [] []"
      and container_name = "''vllm-model-1''" and m = "''[Errno -2] Name or service not known''"
      and host_port = "Some 8001" and p = 8001]
    resolve_base_url_precedence [where env = "backend host_dns [] []"
      and container_name = "''vllm-model-1''" and m = "''[Errno -2] Name or service not known''"
      and host_port = None]
  by (simp add: backend_def bridge_dns_def host_dns_def)

section \<open>Readiness: phase 1\<close>

lemma check_model_readiness_resolved:
  assumes "resolve_base_url env container_name host_port = Inr base_url"
  shows "check_model_readiness env container_name served_model_name host_port =
     (case phase1 env base_url of
        Some r \<Rightarrow> Inr r
      | None \<Rightarrow>
          (case phase2 env base_url (internal_api_key env) served_model_name of
             Some r \<Rightarrow> Inr r
           | None \<Rightarrow>
               (case phase3 env base_url (internal_api_key env) served_model_name of
                  Inr r \<Rightarrow> Inr r
                | Inl e \<Rightarrow> Inr (outer_handler e))))"
  using assms by (simp add: check_model_readiness_def Let_def)

text \<open>
  C2: once the base URL is fixed, the answer of the health endpoint decides.  A 200 gives
  ready, whatever the other endpoints would answer.  A 503 whose message (lines 235-239)
  has \<^verbatim>\<open>loading\<close> or \<^verbatim>\<open>initializing\<close> in its lower-cased form gives loading with
  detail \<^verbatim>\<open>model_loading\<close>; any other 503 gives loading with \<^verbatim>\<open>health_503: \<close> and
  the first 100 characters of the message.  A timeout gives loading with
  \<^verbatim>\<open>health_timeout\<close>, a refused connection loading with \<^verbatim>\<open>connection_refused\<close>.
\<close>

theorem phase1_health_decision:
  assumes "resolve_base_url env container_name host_port = Inr base_url"
  shows
    "(http_get env (base_url @ ''/health'') [] = Inr health_resp \<and> status_code health_resp = 200 \<longrightarrow>
        check_model_readiness env container_name served_model_name host_port
          = Inr \<lparr>status = ''ready'', detail = None\<rparr>)
     \<and> (http_get env (base_url @ ''/health'') [] = Inr health_resp \<and> status_code health_resp = 503
          \<and> (py_in_str ''loading'' (lower (health_message health_resp))
               \<or> py_in_str ''initializing'' (lower (health_message health_resp))) \<longrightarrow>
        check_model_readiness env container_name served_model_name host_port
          = Inr \<lparr>status = ''loading'', detail = Some ''model_loading''\<rparr>)
     \<and> (http_get env (base_url @ ''/health'') [] = Inr health_resp \<and> status_code health_resp = 503
          \<and> \<not> py_in_str ''loading'' (lower (health_message health_resp))
          \<and> \<not> py_in_str ''initializing'' (lower (health_message health_resp)) \<longrightarrow>
        check_model_readiness env container_name served_model_name host_port
          = Inr \<lparr>status = ''loading'',
                 detail = Some (''health_503: '' @ take 100 (health_message health_resp))\<rparr>)
     \<and> (http_get env (base_url @ ''/health'') [] = Inl (TimeoutException m) \<longrightarrow>
        check_model_readiness env container_name served_model_name host_port
          = Inr \<lparr>status = ''loading'', detail = Some ''health_timeout''\<rparr>)
     \<and> (http_get env (base_url @ ''/health'') [] = Inl (ConnectError m) \<longrightarrow>
        check_model_readiness env container_name served_model_name host_port
          = Inr \<lparr>status = ''loading'', detail = Some ''connection_refused''\<rparr>)"
  unfolding check_model_readiness_resolved [OF assms]
  by (simp add: phase1_def Let_def)


theorem phase1_health_decision_witness:
  "check_model_readiness
      (backend bridge_dns [health_route (Inr (json_reply 200 (JDict [(''status'', JStr ''ok'')])))] [])
      ''vllm-model-1'' ''llama-3'' None = Inr \<lparr>status = ''ready'', detail = None\<rparr>
   \<and> check_model_readiness
      (backend bridge_dns
         [health_route (Inr (json_reply 503 (JDict [(''detail'', JStr ''Loading model checkpoint shards'')])))] [])
      ''vllm-model-1'' ''llama-3'' None = Inr \<lparr>status = ''loading'', detail = Some ''model_loading''\<rparr>
   \<and> check_model_readiness
      (backend bridge_dns [health_route (Inr (text_reply 503 ''Service Unavailable''))] [])
      ''vllm-model-1'' ''llama-3'' None
        = Inr \<lparr>status = ''loading'', detail = Some ''health_503: Service Unavailable''\<rparr>
   \<and> check_model_readiness
      (backend bridge_dns [health_route (Inl (TimeoutException []))] [])
      ''vllm-model-1'' ''llama-3'' None = Inr \<lparr>status = ''loading'', detail = Some ''health_timeout''\<rparr>
   \<and> check_model_readiness (backend bridge_dns [] [])
      ''vllm-model-1'' ''llama-3'' None = Inr \<lparr>status = ''loading'', detail = Some ''connection_refused''\<rparr>"
proof -
  let ?loading = "json_reply 503 (JDict [(''detail'', JStr ''Loading model checkpoint shards'')])"
  let ?unavailable = "text_reply 503 ''Service Unavailable''"
  have h1: "http_get (backend bridge_dns [health_route (Inr (json_reply 200 (JDict [(''status'', JStr ''ok'')])))] [])
        (''http://vllm-model-1:8000'' @ ''/health'') [] = Inr (json_reply 200 (JDict [(''status'', JStr ''ok'')]))
      \<and> status_code (json_reply 200 (JDict [(''status'', JStr ''ok'')])) = 200"
    by (simp add: route_defs)
  have msg2: "health_message ?loading = ''Loading model checkpoint shards''"
    by (simp add: health_message_def py_or_def)
  have h2: "http_get (backend bridge_dns [health_route (Inr ?loading)] [])
        (''http://vllm-model-1:8000'' @ ''/health'') [] = Inr ?loading
      \<and> status_code ?loading = 503
      \<and> (py_in_str ''loading'' (lower (health_message ?loading))
          \<or> py_in_str ''initializing'' (lower (health_message ?loading)))"
    unfolding msg2 by (intro conjI) (simp_all add: route_defs, code_simp)
  have msg3: "health_message ?unavailable = ''Service Unavailable''"
    by (simp add: health_message_def)
  have h3: "http_get (backend bridge_dns [health_route (Inr ?unavailable)] [])
        (''http://vllm-model-1:8000'' @ ''/health'') [] = Inr ?unavailable
      \<and> status_code ?unavailable = 503
      \<and> \<not> py_in_str ''loading'' (lower (health_message ?unavailable))
      \<and> \<not> py_in_str ''initializing'' (lower (health_message ?unavailable))"
    unfolding msg3 by (intro conjI) (simp_all add: route_defs, code_simp+)
  have h4: "http_get (backend bridge_dns [health_route (Inl (TimeoutException []))] [])
        (''http://vllm-model-1:8000'' @ ''/health'') [] = Inl (TimeoutException [])"
    by (simp add: route_defs)
  have h5: "http_get (backend bridge_dns [] []) (''http://vllm-model-1:8000'' @ ''/health'') []
      = Inl (ConnectError ''All connection attempts failed'')"
    by simp
  have res: "resolve_base_url (backend bridge_dns gets []) ''vllm-model-1'' None
      = Inr ''http://vllm-model-1:8000''" for gets
    by simp
  note decision = phase1_health_decision [OF res]
  have c3: "''health_503: '' @ take 100 (health_message ?unavailable) = ''health_503: Service Unavailable''"
    unfolding msg3 by simp
  show ?thesis
    apply (intro conjI)
        apply (rule decision [THEN conjunct1, rule_format, OF h1])
       apply (rule decision [THEN conjunct2, THEN conjunct1, rule_format, OF h2])
      apply (rule decision [THEN conjunct2, THEN conjunct2, THEN conjunct1, rule_format, OF h3, unfolded c3])
     apply (rule decision [THEN conjunct2, THEN conjunct2, THEN conjunct2, THEN conjunct1, rule_format, OF h4])
    apply (rule decision [THEN conjunct2, THEN conjunct2, THEN conjunct2, THEN conjunct2, rule_format, OF h5])
    done
qed

section \<open>Readiness: phase 2\<close>

text \<open>When a phase is inconclusive, that is, falls through to the next one.\<close>

lemma phase1_inconclusive:
  "phase1 env base_url = None \<longleftrightarrow>
     (case http_get env (base_url @ ''/health'') [] of
        Inr health_resp \<Rightarrow> status_code health_resp \<noteq> 200 \<and> status_code health_resp \<noteq> 503
      | Inl e \<Rightarrow> \<not> is_timeout e \<and> \<not> is_connect_error e)"
  by (auto simp: phase1_def Let_def split: sum.splits)

lemma phase2_inconclusive:
  "phase2 env base_url api_key served_model_name = None \<longleftrightarrow>
     (case http_get env (base_url @ ''/v1/models'') [(''Authorization'', ''Bearer '' @ api_key)] of
        Inr models_resp \<Rightarrow>
          status_code models_resp \<noteq> 200
          \<and> (status_code models_resp = 503 \<longrightarrow>
               (\<exists>e. models_unavailable (models_message models_resp) = Inl e
                    \<and> \<not> is_timeout e \<and> \<not> is_connect_error e))
      | Inl e \<Rightarrow> \<not> is_timeout e \<and> \<not> is_connect_error e)"
  by (auto simp: phase2_def and_then_def split: sum.splits)

lemma models_listed_list:
  assumes "resp_json models_resp = Inr (JDict body)" and "map_of body ''data'' = Some (JList models)"
  shows "models_listed models_resp served_model_name =
     (if models = [] then \<lparr>status = ''loading'', detail = Some ''models_list_empty''\<rparr>
      else \<lparr>status = ''ready'', detail = None\<rparr>)"
  using assms
  by (cases "find_model models served_model_name")
     (auto simp: models_listed_def split: sum.splits option.splits)

lemma phase2_listed:
  assumes "http_get env (base_url @ ''/v1/models'') [(''Authorization'', ''Bearer '' @ api_key)] = Inr models_resp"
    and "status_code models_resp = 200"
  shows "phase2 env base_url api_key served_model_name = Some (models_listed models_resp served_model_name)"
  using assms by (simp add: phase2_def)

text \<open>
  C4: when phase 1 is inconclusive and the listing answers 200 with a list under
  \<^verbatim>\<open>data\<close>: the result is ready if an entry of the list has the served model name as its
  \<^verbatim>\<open>id\<close>, loading with detail \<^verbatim>\<open>models_list_empty\<close> if the list is empty, and ready if
  the list is not empty and has no such entry.
\<close>

theorem phase2_listing_decision:
  assumes "resolve_base_url env container_name host_port = Inr base_url"
    and "phase1 env base_url = None"
    and "http_get env (base_url @ ''/v1/models'') [(''Authorization'', ''Bearer '' @ internal_api_key env)]
           = Inr models_resp"
    and "status_code models_resp = 200"
    and "resp_json models_resp = Inr (JDict body)"
    and "map_of body ''data'' = Some (JList models)"
  shows
    "((\<exists>m. JDict m \<in> set models \<and> map_of m ''id'' = Some (JStr served_model_name)) \<longrightarrow>
        check_model_readiness env container_name served_model_name host_port
          = Inr \<lparr>status = ''ready'', detail = None\<rparr>)
     \<and> (models = [] \<longrightarrow>
        check_model_readiness env container_name served_model_name host_port
          = Inr \<lparr>status = ''loading'', detail = Some ''models_list_empty''\<rparr>)
     \<and> (models \<noteq> [] \<and> \<not> (\<exists>m. JDict m \<in> set models \<and> map_of m ''id'' = Some (JStr served_model_name)) \<longrightarrow>
        check_model_readiness env container_name served_model_name host_port
          = Inr \<lparr>status = ''ready'', detail = None\<rparr>)"
proof -
  have "check_model_readiness env container_name served_model_name host_port
      = Inr (models_listed models_resp served_model_name)"
    by (simp add: check_model_readiness_resolved [OF assms(1)] assms(2) phase2_listed [OF assms(3,4)])
  then show ?thesis
    by (auto simp: models_listed_list [OF assms(5,6)])
qed

theorem phase2_listing_decision_witness:
  "check_model_readiness
      (backend bridge_dns
         [no_health, models_route (Inr (json_reply 200 (JDict [(''object'', JStr ''list''),
            (''data'', JList [JDict [(''id'', JStr ''llama-3''), (''object'', JStr ''model'')]])])))] [])
      ''vllm-model-1'' ''llama-3'' None = Inr \<lparr>status = ''ready'', detail = None\<rparr>
   \<and> check_model_readiness
      (backend bridge_dns [no_health, models_route (Inr (json_reply 200 (JDict [(''data'', JList [])])))] [])
      ''vllm-model-1'' ''llama-3'' None = Inr \<lparr>status = ''loading'', detail = Some ''models_list_empty''\<rparr>
   \<and> check_model_readiness
      (backend bridge_dns
         [no_health, models_route (Inr (json_reply 200 (JDict [(''data'', JList [JDict [(''id'', JStr ''mistral-7b'')]])])))] [])
      ''vllm-model-1'' ''llama-3'' None = Inr \<lparr>status = ''ready'', detail = None\<rparr>"
proof -
  let ?present = "JDict [(''object'', JStr ''list''),
      (''data'', JList [JDict [(''id'', JStr ''llama-3''), (''object'', JStr ''model'')]])]"
  let ?empty = "JDict [(''data'', JList [])]"
  let ?other = "JDict [(''data'', JList [JDict [(''id'', JStr ''mistral-7b'')]])]"
  have res: "resolve_base_url (backend bridge_dns gets []) ''vllm-model-1'' None
      = Inr ''http://vllm-model-1:8000''" for gets
    by simp
  have p1: "phase1 (backend bridge_dns [no_health, route] []) ''http://vllm-model-1:8000'' = None" for route
    by (simp add: phase1_def route_defs)
  have get: "http_get (backend bridge_dns [no_health, models_route (Inr (json_reply 200 body))] [])
        (''http://vllm-model-1:8000'' @ ''/v1/models'')
        [(''Authorization'', ''Bearer '' @ internal_api_key (backend bridge_dns [no_health, models_route (Inr (json_reply 200 body))] []))]
      = Inr (json_reply 200 body)" for body
    by (simp add: route_defs)
  have st: "status_code (json_reply 200 body) = 200" for body
    by simp
  have js: "resp_json (json_reply 200 (JDict d)) = Inr (JDict d)" for d
    by simp
  have d1: "map_of [(''object'', JStr ''list''),
      (''data'', JList [JDict [(''id'', JStr ''llama-3''), (''object'', JStr ''model'')]])] ''data''
      = Some (JList [JDict [(''id'', JStr ''llama-3''), (''object'', JStr ''model'')]])"
    by simp
  have d2: "map_of [(''data'', JList [])] ''data'' = Some (JList [])"
    by simp
  have d3: "map_of [(''data'', JList [JDict [(''id'', JStr ''mistral-7b'')]])] ''data''
      = Some (JList [JDict [(''id'', JStr ''mistral-7b'')]])"
    by simp
  have a: "\<exists>m. JDict m \<in> set [JDict [(''id'', JStr ''llama-3''), (''object'', JStr ''model'')]]
      \<and> map_of m ''id'' = Some (JStr ''llama-3'')"
    by simp
  have c: "[JDict [(''id'', JStr ''mistral-7b'')]] \<noteq> []
      \<and> \<not> (\<exists>m. JDict m \<in> set [JDict [(''id'', JStr ''mistral-7b'')]] \<and> map_of m ''id'' = Some (JStr ''llama-3''))"
    by simp
  from phase2_listing_decision [OF res p1 get st js d1, THEN conjunct1, rule_format, OF a]
    phase2_listing_decision [OF res p1 get st js d2, THEN conjunct2, THEN conjunct1, rule_format, OF refl]
    phase2_listing_decision [OF res p1 get st js d3, THEN conjunct2, THEN conjunct2, rule_format, OF c]
  show ?thesis
    by (intro conjI)
qed

text \<open>
  C10: when phase 1 is inconclusive and the listing answers 200, the result is ready if
  the body does not decode, if it decodes to something that is not an object, if the value
  under \<^verbatim>\<open>data\<close> cannot be iterated over (null, a boolean, a number), or if the list
  under \<^verbatim>\<open>data\<close> has an entry that is not an object: the inner handler of line 275
  swallows the exception and line 278 returns ready.
\<close>

theorem phase2_undecodable_listing:
  assumes "resolve_base_url env container_name host_port = Inr base_url"
    and "phase1 env base_url = None"
    and "http_get env (base_url @ ''/v1/models'') [(''Authorization'', ''Bearer '' @ internal_api_key env)]
           = Inr models_resp"
    and "status_code models_resp = 200"
  shows
    "(resp_json models_resp = Inl e \<longrightarrow>
        check_model_readiness env container_name served_model_name host_port
          = Inr \<lparr>status = ''ready'', detail = None\<rparr>)
     \<and> (resp_json models_resp = Inr data \<and> (\<forall>body. data \<noteq> JDict body) \<longrightarrow>
        check_model_readiness env container_name served_model_name host_port
          = Inr \<lparr>status = ''ready'', detail = None\<rparr>)
     \<and> (resp_json models_resp = Inr (JDict body) \<and> map_of body ''data'' = Some models
          \<and> py_iter models = Inl e \<longrightarrow>
        check_model_readiness env container_name served_model_name host_port
          = Inr \<lparr>status = ''ready'', detail = None\<rparr>)
     \<and> (resp_json models_resp = Inr (JDict body) \<and> map_of body ''data'' = Some (JList ms)
          \<and> x \<in> set ms \<and> (\<forall>m. x \<noteq> JDict m) \<longrightarrow>
        check_model_readiness env container_name served_model_name host_port
          = Inr \<lparr>status = ''ready'', detail = None\<rparr>)"
proof -
  have eq: "check_model_readiness env container_name served_model_name host_port
      = Inr (models_listed models_resp served_model_name)"
    by (simp add: check_model_readiness_resolved [OF assms(1)] assms(2) phase2_listed [OF assms(3,4)])
  have a: "resp_json models_resp = Inl e \<Longrightarrow>
      models_listed models_resp served_model_name = \<lparr>status = ''ready'', detail = None\<rparr>"
    by (simp add: models_listed_def)
  have b: "resp_json models_resp = Inr data \<Longrightarrow> \<forall>body. data \<noteq> JDict body \<Longrightarrow>
      models_listed models_resp served_model_name = \<lparr>status = ''ready'', detail = None\<rparr>"
    by (cases data) (simp_all add: models_listed_def)
  have c: "resp_json models_resp = Inr (JDict body) \<Longrightarrow> map_of body ''data'' = Some models \<Longrightarrow>
      py_iter models = Inl e \<Longrightarrow>
      models_listed models_resp served_model_name = \<lparr>status = ''ready'', detail = None\<rparr>"
    by (simp add: models_listed_def)
  have d: "resp_json models_resp = Inr (JDict body) \<Longrightarrow> map_of body ''data'' = Some (JList ms) \<Longrightarrow>
      x \<in> set ms \<Longrightarrow> \<forall>m. x \<noteq> JDict m \<Longrightarrow>
      models_listed models_resp served_model_name = \<lparr>status = ''ready'', detail = None\<rparr>"
    using models_listed_list [of models_resp body ms served_model_name] by auto
  show ?thesis
    unfolding eq using a b c d by blast
qed

theorem phase2_undecodable_listing_witness:
  "check_model_readiness
      (backend bridge_dns [no_health, models_route (Inr (text_reply 200 ''OK''))] [])
      ''vllm-model-1'' ''llama-3'' None = Inr \<lparr>status = ''ready'', detail = None\<rparr>
   \<and> check_model_readiness
      (backend bridge_dns [no_health, models_route (Inr (json_reply 200 (JList [JStr ''llama-3''])))] [])
      ''vllm-model-1'' ''llama-3'' None = Inr \<lparr>status = ''ready'', detail = None\<rparr>
   \<and> check_model_readiness
      (backend bridge_dns [no_health, models_route (Inr (json_reply 200 (JDict [(''data'', JNull)])))] [])
      ''vllm-model-1'' ''llama-3'' None = Inr \<lparr>status = ''ready'', detail = None\<rparr>
   \<and> check_model_readiness
      (backend bridge_dns [no_health, models_route (Inr (json_reply 200 (JDict [(''data'', JList [JStr ''mistral-7b''])])))] [])
      ''vllm-model-1'' ''llama-3'' None = Inr \<lparr>status = ''ready'', detail = None\<rparr>"
proof -
  have res: "resolve_base_url (backend bridge_dns gets []) ''vllm-model-1'' None
      = Inr ''http://vllm-model-1:8000''" for gets
    by simp
  have p1: "phase1 (backend bridge_dns [no_health, route] []) ''http://vllm-model-1:8000'' = None" for route
    by (simp add: phase1_def route_defs)
  have get: "http_get (backend bridge_dns [no_health, models_route (Inr reply)] [])
        (''http://vllm-model-1:8000'' @ ''/v1/models'')
        [(''Authorization'', ''Bearer '' @ internal_api_key (backend bridge_dns [no_health, models_route (Inr reply)] []))]
      = Inr reply" for reply
    by (simp add: route_defs)
  have st: "status_code (json_reply 200 body) = 200" "status_code (text_reply 200 plain) = 200" for body plain
    by simp_all
  have a: "resp_json (text_reply 200 ''OK'') = Inl (JSONDecodeError ''Expecting value: line 1 column 1 (char 0)'')"
    by simp
  have b: "resp_json (json_reply 200 (JList [JStr ''llama-3''])) = Inr (JList [JStr ''llama-3''])
      \<and> (\<forall>body. JList [JStr ''llama-3''] \<noteq> JDict body)"
    by simp
  have c: "resp_json (json_reply 200 (JDict [(''data'', JNull)])) = Inr (JDict [(''data'', JNull)])
      \<and> map_of [(''data'', JNull)] ''data'' = Some JNull
      \<and> py_iter JNull = Inl (TypeError ([CHR 0x27] @ type_name JNull @ [CHR 0x27] @ '' object is not iterable''))"
    by simp
  have d: "resp_json (json_reply 200 (JDict [(''data'', JList [JStr ''mistral-7b''])]))
        = Inr (JDict [(''data'', JList [JStr ''mistral-7b''])])
      \<and> map_of [(''data'', JList [JStr ''mistral-7b''])] ''data'' = Some (JList [JStr ''mistral-7b''])
      \<and> JStr ''mistral-7b'' \<in> set [JStr ''mistral-7b''] \<and> (\<forall>m. JStr ''mistral-7b'' \<noteq> JDict m)"
    by simp
  from phase2_undecodable_listing [OF res p1 get st(2), THEN conjunct1, rule_format, OF a]
    phase2_undecodable_listing [OF res p1 get st(1), THEN conjunct2, THEN conjunct1, rule_format, OF b]
    phase2_undecodable_listing [OF res p1 get st(1), THEN conjunct2, THEN conjunct2, THEN conjunct1, rule_format, OF c]
    phase2_undecodable_listing [OF res p1 get st(1), THEN conjunct2, THEN conjunct2, THEN conjunct2, rule_format, OF d]
  show ?thesis
    by (intro conjI)
qed

section \<open>Readiness: phase 3\<close>

lemma phase3_answered:
  assumes "http_post env (base_url @ ''/v1/chat/completions'') (probe_request served_model_name)
             [(''Content-Type'', ''application/json''), (''Authorization'', ''Bearer '' @ api_key)] = Inr r"
  shows "phase3 env base_url api_key served_model_name =
     (if status_code r = 200 then Inr \<lparr>status = ''ready'', detail = None\<rparr>
      else if status_code r = 503 then
        and_then (py_in ''Loading model'' (probe_message r)) (\<lambda>a.
          if a then Inr \<lparr>status = ''loading'', detail = Some ''loading_model''\<rparr>
          else and_then (py_slice_to 100 (probe_message r)) (\<lambda>cut.
            Inr \<lparr>status = ''error'', detail = Some (''503: '' @ py_str cut)\<rparr>))
      else Inr \<lparr>status = ''error'', detail = Some (''HTTP '' @ str_int (status_code r))\<rparr>)"
  using assms by (simp add: phase3_def Let_def)

text \<open>
  C5, as the specification states it: in phase 3 a 503 with a message that indicates
  loading gives loading with detail \<^verbatim>\<open>loading_model\<close>.  Line 328 looks for the exact text
  \<^verbatim>\<open>Loading model\<close> only: the message \<^verbatim>\<open>model is still loading\<close> gives status error.
\<close>

theorem lowercase_loading_probe_counterexample:
  "check_model_readiness
      (backend bridge_dns [no_health, no_models]
         [chat_route (Inr (json_reply 503 (JDict [(''error'', JDict [(''message'', JStr ''model is still loading'')])])))])
      ''vllm-model-1'' ''llama-3'' None
     = Inr \<lparr>status = ''error'', detail = Some ''503: model is still loading''\<rparr>"
proof -
  let ?reply = "json_reply 503 (JDict [(''error'', JDict [(''message'', JStr ''model is still loading'')])])"
  let ?env = "backend bridge_dns [no_health, no_models] [chat_route (Inr ?reply)]"
  have res: "resolve_base_url ?env ''vllm-model-1'' None = Inr ''http://vllm-model-1:8000''"
    by simp
  have p1: "phase1 ?env ''http://vllm-model-1:8000'' = None"
    by (simp add: phase1_def route_defs)
  have p2: "phase2 ?env ''http://vllm-model-1:8000'' (internal_api_key ?env) ''llama-3'' = None"
    by (simp add: phase2_def route_defs)
  have post: "http_post ?env (''http://vllm-model-1:8000'' @ ''/v1/chat/completions'') (probe_request ''llama-3'')
        [(''Content-Type'', ''application/json''), (''Authorization'', ''Bearer '' @ internal_api_key ?env)]
      = Inr ?reply"
    by (simp add: route_defs)
  have msg: "probe_message ?reply = JStr ''model is still loading''"
    by (simp add: probe_message_def)
  have absent: "\<not> py_in_str ''Loading model'' ''model is still loading''"
    by code_simp
  show ?thesis
    unfolding check_model_readiness_resolved [OF res] p1 p2 phase3_answered [OF post]
    by (simp add: msg absent)
qed

text \<open>Phase 2 answers the same body with loading: line 287 also looks at the lower-cased message.\<close>

lemma lowercase_loading_listing:
  "check_model_readiness
      (backend bridge_dns
         [no_health,
          models_route (Inr (json_reply 503 (JDict [(''error'', JDict [(''message'', JStr ''model is still loading'')])])))]
         [])
      ''vllm-model-1'' ''llama-3'' None
     = Inr \<lparr>status = ''loading'', detail = Some ''loading_model''\<rparr>"
proof -
  let ?reply = "json_reply 503 (JDict [(''error'', JDict [(''message'', JStr ''model is still loading'')])])"
  let ?env = "backend bridge_dns [no_health, models_route (Inr ?reply)] []"
  have res: "resolve_base_url ?env ''vllm-model-1'' None = Inr ''http://vllm-model-1:8000''"
    by simp
  have p1: "phase1 ?env ''http://vllm-model-1:8000'' = None"
    by (simp add: phase1_def route_defs)
  have msg: "models_message ?reply = JStr ''model is still loading''"
    by (simp add: models_message_def)
  have absent: "\<not> py_in_str ''Loading model'' ''model is still loading''"
    by code_simp
  have low: "py_in_str ''loading'' (lower ''model is still loading'')"
    by code_simp
  have "models_unavailable (JStr ''model is still loading'')
      = Inr \<lparr>status = ''loading'', detail = Some ''loading_model''\<rparr>"
    by (simp add: models_unavailable_def absent low)
  then have p2: "phase2 ?env ''http://vllm-model-1:8000'' (internal_api_key ?env) ''llama-3''
      = Some \<lparr>status = ''loading'', detail = Some ''loading_model''\<rparr>"
    by (simp add: phase2_def route_defs msg)
  show ?thesis
    unfolding check_model_readiness_resolved [OF res] p1 p2 by simp
qed

text \<open>
  C5, amended: when phases 1 and 2 are inconclusive, the answer to the one-token chat
  completion decides.  A 200 gives ready.  A 503 whose message (lines 322-326) is a string
  containing the exact text \<^verbatim>\<open>Loading model\<close> gives loading with detail
  \<^verbatim>\<open>loading_model\<close>; a 503 with any other string message gives error with \<^verbatim>\<open>503: \<close> and
  the first 100 characters of the message; whatever the message is, a 503 gives either that
  loading result or status error.  Any other status gives error with detail \<^verbatim>\<open>HTTP \<close> and
  the status code.
\<close>

theorem phase3_probe_decision:
  assumes "resolve_base_url env container_name host_port = Inr base_url"
    and "phase1 env base_url = None"
    and "phase2 env base_url (internal_api_key env) served_model_name = None"
    and "http_post env (base_url @ ''/v1/chat/completions'') (probe_request served_model_name)
           [(''Content-Type'', ''application/json''), (''Authorization'', ''Bearer '' @ internal_api_key env)]
           = Inr r"
  shows
    "(status_code r = 200 \<longrightarrow>
        check_model_readiness env container_name served_model_name host_port
          = Inr \<lparr>status = ''ready'', detail = None\<rparr>)
     \<and> (status_code r = 503 \<and> probe_message r = JStr msg \<and> py_in_str ''Loading model'' msg \<longrightarrow>
        check_model_readiness env container_name served_model_name host_port
          = Inr \<lparr>status = ''loading'', detail = Some ''loading_model''\<rparr>)
     \<and> (status_code r = 503 \<and> probe_message r = JStr msg \<and> \<not> py_in_str ''Loading model'' msg \<longrightarrow>
        check_model_readiness env container_name served_model_name host_port
          = Inr \<lparr>status = ''error'', detail = Some (''503: '' @ take 100 msg)\<rparr>)
     \<and> (status_code r = 503 \<longrightarrow>
        check_model_readiness env container_name served_model_name host_port
          = Inr \<lparr>status = ''loading'', detail = Some ''loading_model''\<rparr>
        \<or> (\<exists>d. check_model_readiness env container_name served_model_name host_port
              = Inr \<lparr>status = ''error'', detail = Some d\<rparr>))
     \<and> (status_code r \<noteq> 200 \<and> status_code r \<noteq> 503 \<longrightarrow>
        check_model_readiness env container_name served_model_name host_port
          = Inr \<lparr>status = ''error'', detail = Some (''HTTP '' @ str_int (status_code r))\<rparr>)"
proof -
  note eq = check_model_readiness_resolved [OF assms(1)] assms(2) assms(3) phase3_answered [OF assms(4)]
  have c1: "status_code r = 200 \<Longrightarrow>
      check_model_readiness env container_name served_model_name host_port
        = Inr \<lparr>status = ''ready'', detail = None\<rparr>"
    by (simp add: eq)
  have c2: "status_code r = 503 \<Longrightarrow> probe_message r = JStr msg \<Longrightarrow> py_in_str ''Loading model'' msg \<Longrightarrow>
      check_model_readiness env container_name served_model_name host_port
        = Inr \<lparr>status = ''loading'', detail = Some ''loading_model''\<rparr>"
    by (simp add: eq)
  have c3: "status_code r = 503 \<Longrightarrow> probe_message r = JStr msg \<Longrightarrow> \<not> py_in_str ''Loading model'' msg \<Longrightarrow>
      check_model_readiness env container_name served_model_name host_port
        = Inr \<lparr>status = ''error'', detail = Some (''503: '' @ take 100 msg)\<rparr>"
    by (simp add: eq)
  have c4: "status_code r = 503 \<Longrightarrow>
      check_model_readiness env container_name served_model_name host_port
        = Inr \<lparr>status = ''loading'', detail = Some ''loading_model''\<rparr>
      \<or> (\<exists>d. check_model_readiness env container_name served_model_name host_port
            = Inr \<lparr>status = ''error'', detail = Some d\<rparr>)"
    by (cases "probe_message r") (auto simp: eq outer_handler_def)
  have c5: "status_code r \<noteq> 200 \<Longrightarrow> status_code r \<noteq> 503 \<Longrightarrow>
      check_model_readiness env container_name served_model_name host_port
        = Inr \<lparr>status = ''error'', detail = Some (''HTTP '' @ str_int (status_code r))\<rparr>"
    by (simp add: eq)
  from c1 c2 c3 c4 c5 show ?thesis by blast
qed

theorem phase3_probe_decision_witness:
  "check_model_readiness
      (backend bridge_dns [no_health, no_models]
         [chat_route (Inr (json_reply 200 (JDict [(''object'', JStr ''chat.completion'')])))])
      ''vllm-model-1'' ''llama-3'' None = Inr \<lparr>status = ''ready'', detail = None\<rparr>
   \<and> check_model_readiness
      (backend bridge_dns [no_health, no_models]
         [chat_route (Inr (json_reply 503 (JDict [(''error'', JDict [(''message'', JStr ''Loading model'')])])))])
      ''vllm-model-1'' ''llama-3'' None = Inr \<lparr>status = ''loading'', detail = Some ''loading_model''\<rparr>
   \<and> check_model_readiness
      (backend bridge_dns [no_health, no_models]
         [chat_route (Inr (json_reply 503 (JDict [(''error'', JDict [(''message'', JStr ''Service overloaded'')])])))])
      ''vllm-model-1'' ''llama-3'' None
        = Inr \<lparr>status = ''error'', detail = Some ''503: Service overloaded''\<rparr>
   \<and> (check_model_readiness
        (backend bridge_dns [no_health, no_models]
           [chat_route (Inr (json_reply 503 (JDict [(''error'', JDict [(''message'', JInt 5)])])))])
        ''vllm-model-1'' ''llama-3'' None = Inr \<lparr>status = ''loading'', detail = Some ''loading_model''\<rparr>
      \<or> (\<exists>d. check_model_readiness
        (backend bridge_dns [no_health, no_models]
           [chat_route (Inr (json_reply 503 (JDict [(''error'', JDict [(''message'', JInt 5)])])))])
        ''vllm-model-1'' ''llama-3'' None = Inr \<lparr>status = ''error'', detail = Some d\<rparr>))
   \<and> check_model_readiness
      (backend bridge_dns [no_health, no_models]
         [chat_route (Inr (text_reply 500 ''Internal Server Error''))])
      ''vllm-model-1'' ''llama-3'' None = Inr \<lparr>status = ''error'', detail = Some ''HTTP 500''\<rparr>"
proof -
  let ?loading = "json_reply 503 (JDict [(''error'', JDict [(''message'', JStr ''Loading model'')])])"
  let ?overloaded = "json_reply 503 (JDict [(''error'', JDict [(''message'', JStr ''Service overloaded'')])])"
  have res: "resolve_base_url (backend bridge_dns gets posts) ''vllm-model-1'' None
      = Inr ''http://vllm-model-1:8000''" for gets posts
    by simp
  have p1: "phase1 (backend bridge_dns [no_health, no_models] posts) ''http://vllm-model-1:8000'' = None"
    for posts
    by (simp add: phase1_def route_defs)
  have p2: "phase2 (backend bridge_dns [no_health, no_models] posts) ''http://vllm-model-1:8000''
      (internal_api_key (backend bridge_dns [no_health, no_models] posts)) ''llama-3'' = None" for posts
    by (simp add: phase2_def route_defs)
  have post: "http_post (backend bridge_dns [no_health, no_models] [chat_route (Inr reply)])
        (''http://vllm-model-1:8000'' @ ''/v1/chat/completions'') (probe_request ''llama-3'')
        [(''Content-Type'', ''application/json''),
         (''Authorization'', ''Bearer '' @ internal_api_key (backend bridge_dns [no_health, no_models] [chat_route (Inr reply)]))]
      = Inr reply" for reply
    by (simp add: route_defs)
  note decision = phase3_probe_decision [OF res p1 p2 post]
  have a: "status_code (json_reply 200 (JDict [(''object'', JStr ''chat.completion'')])) = 200"
    by simp
  have b: "status_code ?loading = 503 \<and> probe_message ?loading = JStr ''Loading model''
      \<and> py_in_str ''Loading model'' ''Loading model''"
    by (simp add: probe_message_def)
  have c: "status_code ?overloaded = 503 \<and> probe_message ?overloaded = JStr ''Service overloaded''
      \<and> \<not> py_in_str ''Loading model'' ''Service overloaded''"
    by (simp add: probe_message_def)
  have d: "status_code (json_reply 503 (JDict [(''error'', JDict [(''message'', JInt 5)])])) = 503"
    by simp
  have e: "status_code (text_reply 500 ''Internal Server Error'') \<noteq> 200
      \<and> status_code (text_reply 500 ''Internal Server Error'') \<noteq> 503"
    by simp
  have e': "''HTTP '' @ str_int (status_code (text_reply 500 ''Internal Server Error'')) = ''HTTP 500''"
    by (simp add: str_int_def str_nat.simps)
  from decision [THEN conjunct1, rule_format, OF a]
    decision [THEN conjunct2, THEN conjunct1, rule_format, OF b]
    decision [THEN conjunct2, THEN conjunct2, THEN conjunct1, rule_format, OF c]
    decision [THEN conjunct2, THEN conjunct2, THEN conjunct2, THEN conjunct1, rule_format, OF d]
    decision [THEN conjunct2, THEN conjunct2, THEN conjunct2, THEN conjunct2, rule_format, OF e, unfolded e']
  show ?thesis
    by (intro conjI) simp_all
qed

section \<open>Readiness: status and detail\<close>

lemma phase1_invariant:
  assumes "phase1 env base_url = Some r"
  shows "(status r = ''ready'' \<longrightarrow> detail r = None) \<and> (status r \<noteq> ''ready'' \<longrightarrow> detail r \<noteq> None)"
  using assms by (auto simp: phase1_def Let_def split: sum.splits if_splits)

lemma models_listed_invariant:
  "(status (models_listed models_resp name) = ''ready'' \<longrightarrow> detail (models_listed models_resp name) = None)
   \<and> (status (models_listed models_resp name) \<noteq> ''ready'' \<longrightarrow> detail (models_listed models_resp name) \<noteq> None)"
  by (auto simp: models_listed_def and_then_def split: sum.splits option.splits if_splits)

lemma models_unavailable_invariant:
  assumes "models_unavailable msg = Inr r"
  shows "status r = ''loading'' \<and> detail r \<noteq> None"
  using assms by (auto simp: models_unavailable_def and_then_def split: sum.splits if_splits)

lemma phase2_invariant:
  assumes "phase2 env base_url api_key name = Some r"
  shows "(status r = ''ready'' \<longrightarrow> detail r = None) \<and> (status r \<noteq> ''ready'' \<longrightarrow> detail r \<noteq> None)"
proof (cases "http_get env (base_url @ ''/v1/models'') [(''Authorization'', ''Bearer '' @ api_key)]")
  case (Inl e)
  with assms show ?thesis by (auto simp: phase2_def split: if_splits)
next
  case (Inr models_resp)
  show ?thesis
  proof (cases "status_code models_resp = 200")
    case True
    with Inr assms have "r = models_listed models_resp name" by (simp add: phase2_def)
    then show ?thesis using models_listed_invariant by simp
  next
    case False
    show ?thesis
    proof (cases "status_code models_resp = 503")
      case True
      note unavailable = this
      show ?thesis
      proof (cases "models_unavailable (models_message models_resp)")
        case (Inl e)
        with unavailable False \<open>http_get env (base_url @ ''/v1/models'') [(''Authorization'', ''Bearer '' @ api_key)] = Inr models_resp\<close> assms show ?thesis by (auto simp: phase2_def split: if_splits)
      next
        case r': (Inr r')
        with unavailable False \<open>http_get env (base_url @ ''/v1/models'') [(''Authorization'', ''Bearer '' @ api_key)] = Inr models_resp\<close> assms
        have "r = r'" by (simp add: phase2_def)
        with r' models_unavailable_invariant show ?thesis by auto
      qed
    next
      case f: False
      with False Inr assms show ?thesis by (simp add: phase2_def)
    qed
  qed
qed

lemma phase3_invariant:
  assumes "phase3 env base_url api_key name = Inr r"
  shows "(status r = ''ready'' \<longrightarrow> detail r = None) \<and> (status r \<noteq> ''ready'' \<longrightarrow> detail r \<noteq> None)"
  using assms by (auto simp: phase3_def Let_def and_then_def split: sum.splits if_splits)

lemma outer_handler_invariant:
  "status (outer_handler e) \<noteq> ''ready'' \<and> detail (outer_handler e) \<noteq> None"
  by (simp add: outer_handler_def)

lemma phase1_detail_nonempty:
  assumes "phase1 env base_url = Some r" and "status r \<noteq> ''ready''"
  shows "\<exists>d. detail r = Some d \<and> d \<noteq> []"
  using assms by (auto simp: phase1_def Let_def split: sum.splits if_splits)

lemma models_listed_detail_nonempty:
  assumes "status (models_listed models_resp name) \<noteq> ''ready''"
  shows "\<exists>d. detail (models_listed models_resp name) = Some d \<and> d \<noteq> []"
  using assms
  by (auto simp: models_listed_def and_then_def split: sum.splits option.splits if_splits)

lemma models_unavailable_detail_nonempty:
  assumes "models_unavailable msg = Inr r"
  shows "\<exists>d. detail r = Some d \<and> d \<noteq> []"
  using assms by (auto simp: models_unavailable_def and_then_def split: sum.splits if_splits)

lemma phase2_detail_nonempty:
  assumes "phase2 env base_url api_key name = Some r" and "status r \<noteq> ''ready''"
  shows "\<exists>d. detail r = Some d \<and> d \<noteq> []"
proof (cases "http_get env (base_url @ ''/v1/models'') [(''Authorization'', ''Bearer '' @ api_key)]")
  case (Inl e)
  with assms show ?thesis by (auto simp: phase2_def split: if_splits)
next
  case got: (Inr models_resp)
  show ?thesis
  proof (cases "status_code models_resp = 200")
    case True
    with got assms(1) have "r = models_listed models_resp name" by (simp add: phase2_def)
    with assms(2) models_listed_detail_nonempty show ?thesis by simp
  next
    case not200: False
    show ?thesis
    proof (cases "status_code models_resp = 503")
      case True
      show ?thesis
      proof (cases "models_unavailable (models_message models_resp)")
        case (Inl e)
        with True not200 got assms(1) show ?thesis by (auto simp: phase2_def split: if_splits)
      next
        case r': (Inr r')
        with True not200 got assms(1) have "r = r'" by (simp add: phase2_def)
        with r' models_unavailable_detail_nonempty show ?thesis by auto
      qed
    next
      case False
      with not200 got assms(1) show ?thesis by (simp add: phase2_def)
    qed
  qed
qed

lemma phase3_detail_nonempty:
  assumes "phase3 env base_url api_key name = Inr r" and "status r \<noteq> ''ready''"
  shows "\<exists>d. detail r = Some d \<and> d \<noteq> []"
  using assms by (auto simp: phase3_def Let_def and_then_def split: sum.splits if_splits)

lemma outer_handler_detail:
  "\<exists>d. detail (outer_handler e) = Some d
     \<and> (d \<noteq> [] \<or> (outer_handler e = \<lparr>status = ''error'', detail = Some []\<rparr>
                   \<and> \<not> is_timeout e \<and> \<not> is_connect_error e \<and> str_exn e = []))"
  by (auto simp: outer_handler_def)

text \<open>
  C9, as the specification states it: on every path a result that is not ready carries a
  diagnostic string as detail.  When the request of phase 3 fails with an exception that
  has no text, line 340 returns status error with the empty string as detail.
\<close>

theorem empty_detail_counterexample:
  "check_model_readiness
      (backend bridge_dns [no_health, no_models] [chat_route (Inl (TransportError []))])
      ''vllm-model-1'' ''llama-3'' None
     = Inr \<lparr>status = ''error'', detail = Some []\<rparr>"
proof -
  let ?env = "backend bridge_dns [no_health, no_models] [chat_route (Inl (TransportError []))]"
  have res: "resolve_base_url ?env ''vllm-model-1'' None = Inr ''http://vllm-model-1:8000''"
    by simp
  have p1: "phase1 ?env ''http://vllm-model-1:8000'' = None"
    by (simp add: phase1_def route_defs)
  have p2: "phase2 ?env ''http://vllm-model-1:8000'' (internal_api_key ?env) ''llama-3'' = None"
    by (simp add: phase2_def route_defs)
  have p3: "phase3 ?env ''http://vllm-model-1:8000'' (internal_api_key ?env) ''llama-3''
      = Inl (TransportError [])"
    by (simp add: phase3_def route_defs)
  show ?thesis
    unfolding check_model_readiness_resolved [OF res] p1 p2 p3 by (simp add: outer_handler_def)
qed

text \<open>
  C9, amended: every \<^verbatim>\<open>ReadinessResp\<close> the function returns has no detail when its status
  is ready.  When its status is anything else it has a detail, and the detail is a nonempty
  string except on one path: an exception that is neither a timeout nor a connection
  failure escapes phase 3 and has an empty text; the result is then status error with the
  empty string as detail.
\<close>

theorem readiness_detail_populated:
  assumes "check_model_readiness env container_name served_model_name host_port = Inr r"
  shows "(status r = ''ready'' \<longrightarrow> detail r = None)
     \<and> (status r \<noteq> ''ready'' \<longrightarrow>
          (\<exists>d. detail r = Some d
             \<and> (d \<noteq> []
                 \<or> (r = \<lparr>status = ''error'', detail = Some []\<rparr>
                     \<and> (\<exists>base_url e.
                           resolve_base_url env container_name host_port = Inr base_url
                           \<and> phase1 env base_url = None
                           \<and> phase2 env base_url (internal_api_key env) served_model_name = None
                           \<and> phase3 env base_url (internal_api_key env) served_model_name = Inl e
                           \<and> \<not> is_timeout e \<and> \<not> is_connect_error e \<and> str_exn e = [])))))"
proof -
  from assms obtain base_url where res: "resolve_base_url env container_name host_port = Inr base_url"
    by (cases "resolve_base_url env container_name host_port") (auto simp: check_model_readiness_def)
  note eq = assms [unfolded check_model_readiness_resolved [OF res]]
  show ?thesis
  proof (cases "phase1 env base_url")
    case (Some r1)
    with eq have "r = r1" by simp
    with phase1_invariant [OF Some] phase1_detail_nonempty [OF Some] show ?thesis by auto
  next
    case None
    note p1 = this
    show ?thesis
    proof (cases "phase2 env base_url (internal_api_key env) served_model_name")
      case (Some r2)
      with eq p1 have "r = r2" by simp
      with phase2_invariant [OF Some] phase2_detail_nonempty [OF Some] show ?thesis by auto
    next
      case None
      note p2 = this
      show ?thesis
      proof (cases "phase3 env base_url (internal_api_key env) served_model_name")
        case (Inr r3)
        with eq p1 p2 have "r = r3" by simp
        with phase3_invariant [OF Inr] phase3_detail_nonempty [OF Inr] show ?thesis by auto
      next
        case (Inl e)
        with eq p1 p2 have r: "r = outer_handler e" by simp
        from outer_handler_detail [of e] obtain d where d: "detail (outer_handler e) = Some d"
          and alt: "d \<noteq> [] \<or> (outer_handler e = \<lparr>status = ''error'', detail = Some []\<rparr>
                   \<and> \<not> is_timeout e \<and> \<not> is_connect_error e \<and> str_exn e = [])"
          by blast
        have ready: "status r \<noteq> ''ready''"
          using r outer_handler_invariant [of e] by simp
        from alt show ?thesis
        proof
          assume "d \<noteq> []"
          with d r ready show ?thesis by auto
        next
          assume "outer_handler e = \<lparr>status = ''error'', detail = Some []\<rparr>
                   \<and> \<not> is_timeout e \<and> \<not> is_connect_error e \<and> str_exn e = []"
          with d r ready res p1 p2 Inl show ?thesis by auto
        qed
      qed
    qed
  qed
qed

theorem readiness_detail_populated_witness:
  "check_model_readiness
      (backend bridge_dns [health_route (Inr (json_reply 200 (JDict [(''status'', JStr ''ok'')])))] [])
      ''vllm-model-1'' ''llama-3'' None = Inr \<lparr>status = ''ready'', detail = None\<rparr>
   \<and> detail \<lparr>status = ''ready'', detail = None\<rparr> = None
   \<and> check_model_readiness (backend bridge_dns [] []) ''vllm-model-1'' ''llama-3'' None
       = Inr \<lparr>status = ''loading'', detail = Some ''connection_refused''\<rparr>
   \<and> (\<exists>d. detail \<lparr>status = ''loading'', detail = Some ''connection_refused''\<rparr> = Some d \<and> d \<noteq> [])
   \<and> check_model_readiness
        (backend bridge_dns [no_health, no_models]
           [chat_route (Inl (TransportError ''Server disconnected without sending a response.''))])
        ''vllm-model-1'' ''llama-3'' None
       = Inr \<lparr>status = ''error'', detail = Some ''Server disconnected without sending a response.''\<rparr>
   \<and> (\<exists>d. detail \<lparr>status = ''error'', detail = Some ''Server disconnected without sending a response.''\<rparr>
          = Some d \<and> d \<noteq> [])"
proof -
  let ?cut = "backend bridge_dns [no_health, no_models]
      [chat_route (Inl (TransportError ''Server disconnected without sending a response.''))]"
  have res: "resolve_base_url (backend bridge_dns gets posts) ''vllm-model-1'' None
      = Inr ''http://vllm-model-1:8000''" for gets posts
    by simp
  have ready: "check_model_readiness
      (backend bridge_dns [health_route (Inr (json_reply 200 (JDict [(''status'', JStr ''ok'')])))] [])
      ''vllm-model-1'' ''llama-3'' None = Inr \<lparr>status = ''ready'', detail = None\<rparr>"
    by (simp add: check_model_readiness_resolved [OF res] phase1_def route_defs)
  have down: "check_model_readiness (backend bridge_dns [] []) ''vllm-model-1'' ''llama-3'' None
      = Inr \<lparr>status = ''loading'', detail = Some ''connection_refused''\<rparr>"
    by (simp add: check_model_readiness_resolved [OF res] phase1_def)
  have p1: "phase1 ?cut ''http://vllm-model-1:8000'' = None"
    by (simp add: phase1_def route_defs)
  have p2: "phase2 ?cut ''http://vllm-model-1:8000'' (internal_api_key ?cut) ''llama-3'' = None"
    by (simp add: phase2_def route_defs)
  have p3: "phase3 ?cut ''http://vllm-model-1:8000'' (internal_api_key ?cut) ''llama-3''
      = Inl (TransportError ''Server disconnected without sending a response.'')"
    by (simp add: phase3_def route_defs)
  have cut: "check_model_readiness ?cut ''vllm-model-1'' ''llama-3'' None
      = Inr \<lparr>status = ''error'', detail = Some ''Server disconnected without sending a response.''\<rparr>"
    unfolding check_model_readiness_resolved [OF res] p1 p2 p3 by (simp add: outer_handler_def)
  from readiness_detail_populated [OF ready] readiness_detail_populated [OF down]
    readiness_detail_populated [OF cut] ready down cut
  show ?thesis by simp
qed

section \<open>Readiness: what reaches the caller\<close>

text \<open>
  The function raises exactly when the name lookup raises something that is not a
  \<^verbatim>\<open>socket.gaierror\<close>: the lookup of lines 204-213 stands before the outer \<^verbatim>\<open>try\<close>.
\<close>

lemma resolve_base_url_raises:
  "resolve_base_url env container_name host_port = Inl e
     \<longleftrightarrow> gethostbyname env container_name = Inl e \<and> \<not> is_gaierror e"
  by (auto simp: resolve_base_url_def split: sum.splits option.splits)

lemma check_model_readiness_raises:
  "check_model_readiness env container_name served_model_name host_port = Inl e
     \<longleftrightarrow> gethostbyname env container_name = Inl e \<and> \<not> is_gaierror e"
proof (cases "resolve_base_url env container_name host_port")
  case (Inl e')
  then have "check_model_readiness env container_name served_model_name host_port = Inl e'"
    by (simp add: check_model_readiness_def)
  with Inl resolve_base_url_raises [of env container_name host_port] show ?thesis by auto
next
  case (Inr base_url)
  have "check_model_readiness env container_name served_model_name host_port \<noteq> Inl e"
    unfolding check_model_readiness_resolved [OF Inr] by (auto split: option.splits sum.splits)
  with Inr resolve_base_url_raises [of env container_name host_port e] show ?thesis by simp
qed

lemma check_model_readiness_returns:
  assumes "gethostbyname env container_name = Inr addr \<or> gethostbyname env container_name = Inl (Gaierror m)"
  shows "\<exists>r. check_model_readiness env container_name served_model_name host_port = Inr r"
proof (cases "check_model_readiness env container_name served_model_name host_port")
  case (Inl e)
  with check_model_readiness_raises [of env container_name served_model_name host_port e] assms
  show ?thesis by auto
next
  case (Inr r)
  then show ?thesis by blast
qed

text \<open>
  What escapes the three phases (only phase 3 lets anything escape) meets the outer
  handlers: a timeout or a connection failure gives loading, anything else gives error with
  the first 200 characters of the exception text.
\<close>

lemma escaped_exception:
  assumes "resolve_base_url env container_name host_port = Inr base_url"
    and "phase1 env base_url = None"
    and "phase2 env base_url (internal_api_key env) served_model_name = None"
    and "phase3 env base_url (internal_api_key env) served_model_name = Inl e"
  shows "check_model_readiness env container_name served_model_name host_port =
     Inr (if is_timeout e then \<lparr>status = ''loading'', detail = Some ''request_timeout''\<rparr>
          else if is_connect_error e then \<lparr>status = ''loading'', detail = Some ''connection_refused''\<rparr>
          else \<lparr>status = ''error'', detail = Some (take 200 (str_exn e))\<rparr>)"
  by (simp add: check_model_readiness_resolved [OF assms(1)] assms(2-4) outer_handler_def)

lemma escaped_exception_bounded:
  "status (outer_handler e) = ''error'' \<Longrightarrow> \<exists>d. detail (outer_handler e) = Some d \<and> length d \<le> 200"
  by (auto simp: outer_handler_def split: if_splits)

text \<open>
  C3, the claim that nothing is ever raised to the caller, at a container name of 64
  characters where the name service does not know the container: the codec behind
  \<^verbatim>\<open>socket.gethostbyname\<close> refuses the name with a UnicodeError, line 207 catches only
  \<^verbatim>\<open>socket.gaierror\<close>, and the exception leaves \<^verbatim>\<open>check_model_readiness\<close>.
\<close>

theorem readiness_raises_on_long_name:
  "check_model_readiness (backend host_dns [] []) (replicate 64 (CHR ''a'')) ''llama-3'' (Some 8001)
     = Inl (UnicodeError ''encoding with 'idna' codec failed (UnicodeError: label too long)'')"
  by (simp add: check_model_readiness_def resolve_base_url_def host_dns_def idna_refusal_long_label)

section \<open>Reading the message of an error body\<close>

text \<open>
  C6, as the specification states it: the chat test and the three readiness phases extract
  the message with one and the same routine, so all sites compute the same function of the
  error body.  On a body that has \<^verbatim>\<open>detail\<close>, \<^verbatim>\<open>error.message\<close> and \<^verbatim>\<open>message\<close>
  the chat test reads \<^verbatim>\<open>message\<close>, phase 1 reads \<^verbatim>\<open>detail\<close>, phases 2 and 3 read
  \<^verbatim>\<open>error.message\<close>: three different results.
\<close>

theorem extraction_sites_differ_counterexample:
  "chat_message (json_reply 503 mixed_error_body) = Inr ''no chat template''
   \<and> health_message (json_reply 503 mixed_error_body) = ''starting''
   \<and> models_message (json_reply 503 mixed_error_body) = JStr ''Loading model''
   \<and> probe_message (json_reply 503 mixed_error_body) = JStr ''Loading model''
   \<and> spec_normalizer mixed_error_body = ''starting''"
proof -
  have "lower ''no chat template'' = ''no chat template''"
    by code_simp
  then show ?thesis
    by (simp add: mixed_error_body_def chat_message_def health_message_def models_message_def
        probe_message_def spec_normalizer_def py_or_def List.map_filter_simps)
qed

lemma models_message_eq_probe_message: "models_message r = probe_message r"
  by (simp add: models_message_def probe_message_def)

text \<open>Phase 1, lines 235-239.\<close>

lemma health_message_object:
  assumes "resp_json r = Inr (JDict d)"
  shows "health_message r =
     py_str (if truthy (case map_of d ''detail'' of Some x \<Rightarrow> x | None \<Rightarrow> JNull)
             then (case map_of d ''detail'' of Some x \<Rightarrow> x | None \<Rightarrow> JNull)
             else if truthy (case map_of d ''error'' of Some x \<Rightarrow> x | None \<Rightarrow> JNull)
             then (case map_of d ''error'' of Some x \<Rightarrow> x | None \<Rightarrow> JNull)
             else if truthy (case map_of d ''message'' of Some x \<Rightarrow> x | None \<Rightarrow> JNull)
             then (case map_of d ''message'' of Some x \<Rightarrow> x | None \<Rightarrow> JNull)
             else JStr [])"
  using assms by (simp add: health_message_def py_or_def)

lemma health_message_unreadable:
  assumes "resp_json r = Inl ex \<or> (resp_json r = Inr v \<and> (\<forall>d. v \<noteq> JDict d))"
  shows "health_message r = take 200 (resp_text r)"
  using assms by (cases v) (auto simp: health_message_def)

text \<open>The chat test, lines 63-64.\<close>

lemma chat_message_object:
  assumes "resp_json r = Inr (JDict d)"
  shows "chat_message r =
     Inr (lower (py_str
       (if truthy (case map_of d ''message'' of Some x \<Rightarrow> x | None \<Rightarrow> JNull)
        then (case map_of d ''message'' of Some x \<Rightarrow> x | None \<Rightarrow> JNull)
        else if truthy (case map_of d ''error'' of Some x \<Rightarrow> x | None \<Rightarrow> JNull)
        then (case map_of d ''error'' of Some x \<Rightarrow> x | None \<Rightarrow> JNull)
        else JStr [])))"
  using assms by (simp add: chat_message_def py_or_def)

lemma chat_message_unreadable:
  shows "resp_json r = Inl ex \<Longrightarrow> chat_message r = Inl ex"
    and "resp_json r = Inr v \<Longrightarrow> \<forall>d. v \<noteq> JDict d \<Longrightarrow> \<exists>ex. chat_message r = Inl ex"
  by (simp add: chat_message_def, cases v) (auto simp: chat_message_def)

text \<open>Phases 2 and 3, lines 281-285 and 322-326.\<close>

lemma models_message_falsy:
  assumes "resp_json r = Inr j" and "\<not> truthy j"
  shows "models_message r = JStr []"
  using assms by (simp add: models_message_def)

lemma models_message_no_error:
  assumes "resp_json r = Inr (JDict d)" and "map_of d ''error'' = None"
  shows "models_message r = JStr []"
  using assms by (simp add: models_message_def)

lemma models_message_error_object:
  assumes "resp_json r = Inr (JDict d)" and "map_of d ''error'' = Some (JDict eo)"
  shows "models_message r = (case map_of eo ''message'' of Some m \<Rightarrow> m | None \<Rightarrow> JStr [])"
proof -
  from assms(2) have "d \<noteq> []" by auto
  with assms show ?thesis by (simp add: models_message_def)
qed

lemma models_message_unreadable:
  assumes "resp_json r = Inl ex
      \<or> (resp_json r = Inr j \<and> truthy j \<and> (\<forall>d. j \<noteq> JDict d))
      \<or> (resp_json r = Inr (JDict d) \<and> map_of d ''error'' = Some x \<and> (\<forall>eo. x \<noteq> JDict eo))"
  shows "models_message r = JStr (take 200 (resp_text r))"
proof -
  consider (a) "resp_json r = Inl ex"
    | (b) "resp_json r = Inr j" "truthy j" "\<forall>d. j \<noteq> JDict d"
    | (c) "resp_json r = Inr (JDict d)" "map_of d ''error'' = Some x" "\<forall>eo. x \<noteq> JDict eo"
    using assms by blast
  then show ?thesis
  proof cases
    case a
    then show ?thesis by (simp add: models_message_def)
  next
    case b
    then show ?thesis by (cases j) (auto simp: models_message_def)
  next
    case c
    from c(2) have "d \<noteq> []" by auto
    with c show ?thesis by (cases x) (auto simp: models_message_def)
  qed
qed

text \<open>Where the sites agree with the normalizer of the specification.\<close>

lemma health_message_flat:
  assumes "resp_json r = Inr (JDict d)"
    and "map_of d ''detail'' = None \<or> (\<exists>s. s \<noteq> [] \<and> map_of d ''detail'' = Some (JStr s))"
    and "map_of d ''error'' = None \<or> (\<exists>s. s \<noteq> [] \<and> map_of d ''error'' = Some (JStr s))"
    and "map_of d ''message'' = None \<or> (\<exists>s. s \<noteq> [] \<and> map_of d ''message'' = Some (JStr s))"
  shows "health_message r = spec_normalizer (JDict d)"
  using assms
  by (auto simp: health_message_def spec_normalizer_def py_or_def List.map_filter_simps)

lemma spec_normalizer_nested:
  assumes "map_of d ''detail'' = None" and "map_of d ''error'' = Some (JDict eo)"
    and "map_of eo ''message'' = Some (JStr s)"
  shows "spec_normalizer (JDict d) = s"
  using assms by (simp add: spec_normalizer_def List.map_filter_simps)

lemma spec_normalizer_no_keys:
  assumes "map_of d ''detail'' = None" and "map_of d ''error'' = None" and "map_of d ''message'' = None"
  shows "spec_normalizer (JDict d) = []"
  using assms by (simp add: spec_normalizer_def List.map_filter_simps)

text \<open>
  C6, amended: the sites do not share a routine; each reads the body in its own way.
  Phases 2 and 3 compute the same function: the empty string when the decoded body is falsy
  or is an object without \<^verbatim>\<open>error\<close>; the value under \<^verbatim>\<open>message\<close> of the error object
  (the empty string if it has none) when \<^verbatim>\<open>error\<close> is an object; the first 200 characters
  of the body text when decoding raises, when the body is truthy and not an object, or
  when \<^verbatim>\<open>error\<close> is not an object.  Phase 1 returns, as a string, the first truthy value
  among \<^verbatim>\<open>detail\<close>, \<^verbatim>\<open>error\<close>, \<^verbatim>\<open>message\<close> of an object body, the empty string if none
  is truthy, and the first 200 characters of the body text when decoding raises or the
  body is not an object.  The chat test returns, lower-cased and as a string, the first
  truthy value among \<^verbatim>\<open>message\<close>, \<^verbatim>\<open>error\<close> of an object body, the empty string if none
  is truthy; when decoding raises or the body is not an object, reading the message raises.
  Phase 1 returns what the specification's normalizer returns on an object whose
  \<^verbatim>\<open>detail\<close>, \<^verbatim>\<open>error\<close> and \<^verbatim>\<open>message\<close> values are each absent or a nonempty string;
  phases 2 and 3 return what it returns on an object without \<^verbatim>\<open>detail\<close> whose \<^verbatim>\<open>error\<close>
  is an object with a string \<^verbatim>\<open>message\<close>; on an object with none of the three keys every
  site and the normalizer return the empty string.
\<close>

theorem extraction_sites:
  "models_message r = probe_message r
   \<and> (resp_json r = Inr (JDict d) \<longrightarrow>
      health_message r =
        py_str (if truthy (case map_of d ''detail'' of Some x \<Rightarrow> x | None \<Rightarrow> JNull) then (case map_of d ''detail'' of Some x \<Rightarrow> x | None \<Rightarrow> JNull)
              else if truthy (case map_of d ''error'' of Some x \<Rightarrow> x | None \<Rightarrow> JNull) then (case map_of d ''error'' of Some x \<Rightarrow> x | None \<Rightarrow> JNull)
              else if truthy (case map_of d ''message'' of Some x \<Rightarrow> x | None \<Rightarrow> JNull) then (case map_of d ''message'' of Some x \<Rightarrow> x | None \<Rightarrow> JNull)
              else JStr []))
   \<and> (resp_json r = Inl ex \<or> (resp_json r = Inr v \<and> (\<forall>b. v \<noteq> JDict b)) \<longrightarrow>
      health_message r = take 200 (resp_text r))
   \<and> (resp_json r = Inr (JDict d) \<longrightarrow>
      chat_message r =
        Inr (lower (py_str (if truthy (case map_of d ''message'' of Some x \<Rightarrow> x | None \<Rightarrow> JNull) then (case map_of d ''message'' of Some x \<Rightarrow> x | None \<Rightarrow> JNull)
              else if truthy (case map_of d ''error'' of Some x \<Rightarrow> x | None \<Rightarrow> JNull) then (case map_of d ''error'' of Some x \<Rightarrow> x | None \<Rightarrow> JNull)
              else JStr []))))
   \<and> (resp_json r = Inl ex \<longrightarrow> chat_message r = Inl ex)
   \<and> (resp_json r = Inr v \<and> (\<forall>b. v \<noteq> JDict b) \<longrightarrow> (\<exists>raised. chat_message r = Inl raised))
   \<and> (resp_json r = Inr j \<and> \<not> truthy j \<longrightarrow> models_message r = JStr [])
   \<and> (resp_json r = Inr (JDict d) \<and> map_of d ''error'' = None \<longrightarrow> models_message r = JStr [])
   \<and> (resp_json r = Inr (JDict d) \<and> map_of d ''error'' = Some (JDict eo) \<longrightarrow>
      models_message r = (case map_of eo ''message'' of Some m \<Rightarrow> m | None \<Rightarrow> JStr []))
   \<and> (resp_json r = Inl ex
        \<or> (resp_json r = Inr j \<and> truthy j \<and> (\<forall>b. j \<noteq> JDict b))
        \<or> (resp_json r = Inr (JDict d) \<and> map_of d ''error'' = Some x \<and> (\<forall>b. x \<noteq> JDict b)) \<longrightarrow>
      models_message r = JStr (take 200 (resp_text r)))
   \<and> (resp_json r = Inr (JDict d)
        \<and> (map_of d ''detail'' = None \<or> (\<exists>s. s \<noteq> [] \<and> map_of d ''detail'' = Some (JStr s)))
        \<and> (map_of d ''error'' = None \<or> (\<exists>s. s \<noteq> [] \<and> map_of d ''error'' = Some (JStr s)))
        \<and> (map_of d ''message'' = None \<or> (\<exists>s. s \<noteq> [] \<and> map_of d ''message'' = Some (JStr s))) \<longrightarrow>
      health_message r = spec_normalizer (JDict d))
   \<and> (resp_json r = Inr (JDict d) \<and> map_of d ''detail'' = None \<and> map_of d ''error'' = Some (JDict eo)
        \<and> map_of eo ''message'' = Some (JStr s) \<longrightarrow>
      models_message r = JStr s \<and> spec_normalizer (JDict d) = s)
   \<and> (resp_json r = Inr (JDict d) \<and> map_of d ''detail'' = None \<and> map_of d ''error'' = None
        \<and> map_of d ''message'' = None \<longrightarrow>
      chat_message r = Inr [] \<and> health_message r = [] \<and> models_message r = JStr []
      \<and> spec_normalizer (JDict d) = [])"
proof -
  have c1: "models_message r = probe_message r"
    by (rule models_message_eq_probe_message)
  have c2: "resp_json r = Inr (JDict d) \<longrightarrow>
      health_message r =
        py_str (if truthy (case map_of d ''detail'' of Some x \<Rightarrow> x | None \<Rightarrow> JNull) then (case map_of d ''detail'' of Some x \<Rightarrow> x | None \<Rightarrow> JNull)
              else if truthy (case map_of d ''error'' of Some x \<Rightarrow> x | None \<Rightarrow> JNull) then (case map_of d ''error'' of Some x \<Rightarrow> x | None \<Rightarrow> JNull)
              else if truthy (case map_of d ''message'' of Some x \<Rightarrow> x | None \<Rightarrow> JNull) then (case map_of d ''message'' of Some x \<Rightarrow> x | None \<Rightarrow> JNull)
              else JStr [])"
    using health_message_object [of r d] by blast
  have c3: "resp_json r = Inl ex \<or> (resp_json r = Inr v \<and> (\<forall>b. v \<noteq> JDict b)) \<longrightarrow>
      health_message r = take 200 (resp_text r)"
    using health_message_unreadable [of r ex v] by blast
  have c4: "resp_json r = Inr (JDict d) \<longrightarrow>
      chat_message r =
        Inr (lower (py_str (if truthy (case map_of d ''message'' of Some x \<Rightarrow> x | None \<Rightarrow> JNull) then (case map_of d ''message'' of Some x \<Rightarrow> x | None \<Rightarrow> JNull)
              else if truthy (case map_of d ''error'' of Some x \<Rightarrow> x | None \<Rightarrow> JNull) then (case map_of d ''error'' of Some x \<Rightarrow> x | None \<Rightarrow> JNull)
              else JStr [])))"
    using chat_message_object [of r d] by blast
  have c5: "resp_json r = Inl ex \<longrightarrow> chat_message r = Inl ex"
    using chat_message_unreadable(1) [of r ex] by blast
  have c6: "resp_json r = Inr v \<and> (\<forall>b. v \<noteq> JDict b) \<longrightarrow> (\<exists>raised. chat_message r = Inl raised)"
    using chat_message_unreadable(2) [of r v] by blast
  have c7: "resp_json r = Inr j \<and> \<not> truthy j \<longrightarrow> models_message r = JStr []"
    using models_message_falsy [of r j] by blast
  have c8: "resp_json r = Inr (JDict d) \<and> map_of d ''error'' = None \<longrightarrow> models_message r = JStr []"
    using models_message_no_error [of r d] by blast
  have c9: "resp_json r = Inr (JDict d) \<and> map_of d ''error'' = Some (JDict eo) \<longrightarrow>
      models_message r = (case map_of eo ''message'' of Some m \<Rightarrow> m | None \<Rightarrow> JStr [])"
    using models_message_error_object [of r d eo] by blast
  have c10: "resp_json r = Inl ex
        \<or> (resp_json r = Inr j \<and> truthy j \<and> (\<forall>b. j \<noteq> JDict b))
        \<or> (resp_json r = Inr (JDict d) \<and> map_of d ''error'' = Some x \<and> (\<forall>b. x \<noteq> JDict b)) \<longrightarrow>
      models_message r = JStr (take 200 (resp_text r))"
    using models_message_unreadable [of r ex j d x] by blast
  have c11: "resp_json r = Inr (JDict d)
        \<and> (map_of d ''detail'' = None \<or> (\<exists>s. s \<noteq> [] \<and> map_of d ''detail'' = Some (JStr s)))
        \<and> (map_of d ''error'' = None \<or> (\<exists>s. s \<noteq> [] \<and> map_of d ''error'' = Some (JStr s)))
        \<and> (map_of d ''message'' = None \<or> (\<exists>s. s \<noteq> [] \<and> map_of d ''message'' = Some (JStr s))) \<longrightarrow>
      health_message r = spec_normalizer (JDict d)"
    using health_message_flat [of r d] by blast
  have c12: "resp_json r = Inr (JDict d) \<and> map_of d ''detail'' = None \<and> map_of d ''error'' = Some (JDict eo)
        \<and> map_of eo ''message'' = Some (JStr s) \<longrightarrow>
      models_message r = JStr s \<and> spec_normalizer (JDict d) = s"
    using models_message_error_object [of r d eo] spec_normalizer_nested [of d eo s] by auto
  have c13: "resp_json r = Inr (JDict d) \<and> map_of d ''detail'' = None \<and> map_of d ''error'' = None
        \<and> map_of d ''message'' = None \<longrightarrow>
      chat_message r = Inr [] \<and> health_message r = [] \<and> models_message r = JStr []
      \<and> spec_normalizer (JDict d) = []"
    using chat_message_object [of r d] health_message_object [of r d] models_message_no_error [of r d]
      spec_normalizer_no_keys [of d] by (auto simp: lower_def)
  from c1 c2 c3 c4 c5 c6 c7 c8 c9 c10 c11 c12 c13 show ?thesis
    by (intro conjI)
qed

theorem extraction_sites_witness:
  "models_message (text_reply 503 ''Service Unavailable'') = probe_message (text_reply 503 ''Service Unavailable'')
   \<and> health_message (json_reply 503 (JDict [(''detail'', JStr []), (''error'', JStr ''loading weights'')])) = ''loading weights''
   \<and> health_message (text_reply 503 ''Service Unavailable'') = ''Service Unavailable''
   \<and> chat_message (json_reply 400 (JDict [(''message'', JStr []), (''error'', JStr ''No Chat Template'')])) = Inr (lower ''No Chat Template'')
   \<and> chat_message (text_reply 500 ''Internal Server Error'') = Inl (JSONDecodeError ''Expecting value: line 1 column 1 (char 0)'')
   \<and> (\<exists>raised. chat_message (json_reply 400 (JList [JStr ''error''])) = Inl raised)
   \<and> models_message (json_reply 503 JNull) = JStr []
   \<and> models_message (json_reply 503 (JDict [(''detail'', JStr ''starting'')])) = JStr []
   \<and> models_message (json_reply 503 (JDict [(''error'', JDict [(''code'', JInt 503)])])) = JStr []
   \<and> models_message (json_reply 503 (JDict [(''error'', JStr ''initializing'')])) = JStr (take 200 (resp_text (json_reply 503 (JDict [(''error'', JStr ''initializing'')]))))
   \<and> health_message (json_reply 503 (JDict [(''error'', JStr ''initializing'')])) = spec_normalizer (JDict [(''error'', JStr ''initializing'')])
   \<and> models_message (json_reply 503 (JDict [(''error'', JDict [(''message'', JStr ''Loading model'')])])) = JStr ''Loading model''
   \<and> spec_normalizer (JDict [(''error'', JDict [(''message'', JStr ''Loading model'')])]) = ''Loading model''
   \<and> chat_message (json_reply 503 (JDict [])) = Inr []
   \<and> health_message (json_reply 503 (JDict [])) = []
   \<and> models_message (json_reply 503 (JDict [])) = JStr []
   \<and> spec_normalizer (JDict []) = []"
proof -
  have h2: "resp_json (json_reply 503 (JDict [(''detail'', JStr []), (''error'', JStr ''loading weights'')])) = Inr (JDict [(''detail'', JStr []), (''error'', JStr ''loading weights'')])"
    by simp
  have h3: "resp_json (text_reply 503 ''Service Unavailable'') = Inl (JSONDecodeError ''Expecting value: line 1 column 1 (char 0)'')
      \<or> (resp_json (text_reply 503 ''Service Unavailable'') = Inr JNull \<and> (\<forall>b. JNull \<noteq> JDict b))"
    by simp
  have h4: "resp_json (json_reply 400 (JDict [(''message'', JStr []), (''error'', JStr ''No Chat Template'')])) = Inr (JDict [(''message'', JStr []), (''error'', JStr ''No Chat Template'')])"
    by simp
  have h5: "resp_json (text_reply 500 ''Internal Server Error'') = Inl (JSONDecodeError ''Expecting value: line 1 column 1 (char 0)'')"
    by simp
  have h6: "resp_json (json_reply 400 (JList [JStr ''error''])) = Inr (JList [JStr ''error'']) \<and> (\<forall>b. JList [JStr ''error''] \<noteq> JDict b)"
    by simp
  have h7: "resp_json (json_reply 503 JNull) = Inr JNull \<and> \<not> truthy JNull"
    by simp
  have h8: "resp_json (json_reply 503 (JDict [(''detail'', JStr ''starting'')])) = Inr (JDict [(''detail'', JStr ''starting'')]) \<and> map_of [(''detail'', JStr ''starting'')] ''error'' = None"
    by simp
  have h9: "resp_json (json_reply 503 (JDict [(''error'', JDict [(''code'', JInt 503)])])) = Inr (JDict [(''error'', JDict [(''code'', JInt 503)])])
      \<and> map_of [(''error'', JDict [(''code'', JInt 503)])] ''error'' = Some (JDict [(''code'', JInt 503)])"
    by simp
  have h10: "resp_json (json_reply 503 (JDict [(''error'', JStr ''initializing'')])) = Inl (Exception [])
      \<or> (resp_json (json_reply 503 (JDict [(''error'', JStr ''initializing'')])) = Inr JNull \<and> truthy JNull \<and> (\<forall>b. JNull \<noteq> JDict b))
      \<or> (resp_json (json_reply 503 (JDict [(''error'', JStr ''initializing'')])) = Inr (JDict [(''error'', JStr ''initializing'')])
          \<and> map_of [(''error'', JStr ''initializing'')] ''error'' = Some (JStr ''initializing'')
          \<and> (\<forall>b. JStr ''initializing'' \<noteq> JDict b))"
    by simp
  have h11: "resp_json (json_reply 503 (JDict [(''error'', JStr ''initializing'')])) = Inr (JDict [(''error'', JStr ''initializing'')])
      \<and> (map_of [(''error'', JStr ''initializing'')] ''detail'' = None
          \<or> (\<exists>s. s \<noteq> [] \<and> map_of [(''error'', JStr ''initializing'')] ''detail'' = Some (JStr s)))
      \<and> (map_of [(''error'', JStr ''initializing'')] ''error'' = None
          \<or> (\<exists>s. s \<noteq> [] \<and> map_of [(''error'', JStr ''initializing'')] ''error'' = Some (JStr s)))
      \<and> (map_of [(''error'', JStr ''initializing'')] ''message'' = None
          \<or> (\<exists>s. s \<noteq> [] \<and> map_of [(''error'', JStr ''initializing'')] ''message'' = Some (JStr s)))"
    by simp
  have h12: "resp_json (json_reply 503 (JDict [(''error'', JDict [(''message'', JStr ''Loading model'')])])) = Inr (JDict [(''error'', JDict [(''message'', JStr ''Loading model'')])])
      \<and> map_of [(''error'', JDict [(''message'', JStr ''Loading model'')])] ''detail'' = None
      \<and> map_of [(''error'', JDict [(''message'', JStr ''Loading model'')])] ''error'' = Some (JDict [(''message'', JStr ''Loading model'')])
      \<and> map_of [(''message'', JStr ''Loading model'')] ''message'' = Some (JStr ''Loading model'')"
    by simp
  have h13: "resp_json (json_reply 503 (JDict [])) = Inr (JDict []) \<and> map_of [] ''detail'' = (None :: json option)
      \<and> map_of [] ''error'' = (None :: json option) \<and> map_of [] ''message'' = (None :: json option)"
    by simp
  have w1: "models_message (text_reply 503 ''Service Unavailable'') = probe_message (text_reply 503 ''Service Unavailable'')"
    by (rule extraction_sites [where r = "text_reply 503 ''Service Unavailable''", THEN conjunct1])
  have w2: "health_message (json_reply 503 (JDict [(''detail'', JStr []), (''error'', JStr ''loading weights'')])) = ''loading weights''"
    using extraction_sites [THEN conjunct2, THEN conjunct1, rule_format, OF h2] by simp
  have w3: "health_message (text_reply 503 ''Service Unavailable'') = ''Service Unavailable''"
    using extraction_sites [THEN conjunct2, THEN conjunct2, THEN conjunct1, rule_format, OF h3] by simp
  have w4: "chat_message (json_reply 400 (JDict [(''message'', JStr []), (''error'', JStr ''No Chat Template'')])) = Inr (lower ''No Chat Template'')"
    using extraction_sites [THEN conjunct2, THEN conjunct2, THEN conjunct2, THEN conjunct1, rule_format, OF h4] by simp
  have w5: "chat_message (text_reply 500 ''Internal Server Error'') = Inl (JSONDecodeError ''Expecting value: line 1 column 1 (char 0)'')"
    using extraction_sites [THEN conjunct2, THEN conjunct2, THEN conjunct2, THEN conjunct2, THEN conjunct1, rule_format, OF h5] by simp
  have w6: "(\<exists>raised. chat_message (json_reply 400 (JList [JStr ''error''])) = Inl raised)"
    using extraction_sites [THEN conjunct2, THEN conjunct2, THEN conjunct2, THEN conjunct2, THEN conjunct2, THEN conjunct1, rule_format, OF h6] by simp
  have w7: "models_message (json_reply 503 JNull) = JStr []"
    using extraction_sites [THEN conjunct2, THEN conjunct2, THEN conjunct2, THEN conjunct2, THEN conjunct2, THEN conjunct2, THEN conjunct1, rule_format, OF h7] by simp
  have w8: "models_message (json_reply 503 (JDict [(''detail'', JStr ''starting'')])) = JStr []"
    using extraction_sites [THEN conjunct2, THEN conjunct2, THEN conjunct2, THEN conjunct2, THEN conjunct2, THEN conjunct2, THEN conjunct2, THEN conjunct1, rule_format, OF h8] by simp
  have w9: "models_message (json_reply 503 (JDict [(''error'', JDict [(''code'', JInt 503)])])) = JStr []"
    using extraction_sites [THEN conjunct2, THEN conjunct2, THEN conjunct2, THEN conjunct2, THEN conjunct2, THEN conjunct2, THEN conjunct2, THEN conjunct2, THEN conjunct1, rule_format, OF h9] by simp
  have w10: "models_message (json_reply 503 (JDict [(''error'', JStr ''initializing'')])) = JStr (take 200 (resp_text (json_reply 503 (JDict [(''error'', JStr ''initializing'')]))))"
    using extraction_sites [THEN conjunct2, THEN conjunct2, THEN conjunct2, THEN conjunct2, THEN conjunct2, THEN conjunct2, THEN conjunct2, THEN conjunct2, THEN conjunct2, THEN conjunct1, rule_format, OF h10] by simp
  have w11: "health_message (json_reply 503 (JDict [(''error'', JStr ''initializing'')])) = spec_normalizer (JDict [(''error'', JStr ''initializing'')])"
    using extraction_sites [THEN conjunct2, THEN conjunct2, THEN conjunct2, THEN conjunct2, THEN conjunct2, THEN conjunct2, THEN conjunct2, THEN conjunct2, THEN conjunct2, THEN conjunct2, THEN conjunct1, rule_format, OF h11] by simp
  have w12: "models_message (json_reply 503 (JDict [(''error'', JDict [(''message'', JStr ''Loading model'')])])) = JStr ''Loading model'' \<and> spec_normalizer (JDict [(''error'', JDict [(''message'', JStr ''Loading model'')])]) = ''Loading model''"
    using extraction_sites [THEN conjunct2, THEN conjunct2, THEN conjunct2, THEN conjunct2, THEN conjunct2, THEN conjunct2, THEN conjunct2, THEN conjunct2, THEN conjunct2, THEN conjunct2, THEN conjunct2, THEN conjunct1, rule_format, OF h12] by simp
  have w13: "chat_message (json_reply 503 (JDict [])) = Inr [] \<and> health_message (json_reply 503 (JDict [])) = [] \<and> models_message (json_reply 503 (JDict [])) = JStr [] \<and> spec_normalizer (JDict []) = []"
    using extraction_sites [THEN conjunct2, THEN conjunct2, THEN conjunct2, THEN conjunct2, THEN conjunct2, THEN conjunct2, THEN conjunct2, THEN conjunct2, THEN conjunct2, THEN conjunct2, THEN conjunct2, THEN conjunct2, rule_format, OF h13] by simp
  from w1 w2 w3 w4 w5 w6 w7 w8 w9 w10 w11 w12 w13 show ?thesis
    by (elim conjE) (intro conjI)
qed

section \<open>The chat test: fallback to completions\<close>


lemma format_messages_pairs:
  "format_messages (map (\<lambda>(role, content). JDict [(''role'', JStr role), (''content'', JStr content)]) ms)
     = Inr (map (\<lambda>(role, content). title role @ '': '' @ content) ms)"
  by (induction ms) (auto simp: format_message_def)

text \<open>
  Lines 68-72 on any list of messages with string roles and contents: each message becomes
  \<^verbatim>\<open>Role: content\<close> with the role title-cased, the parts keep their order and are joined by
  an empty line, and the cue \<^verbatim>\<open>Assistant:\<close> ends the prompt.
\<close>

lemma completion_prompt_joins:
  "completion_prompt (JDict [(''messages'',
       JList (map (\<lambda>(role, content). JDict [(''role'', JStr role), (''content'', JStr content)]) ms))])
     = Inr (join ''\<newline>\<newline>'' (map (\<lambda>(role, content). title role @ '': '' @ content) ms)
            @ ''\<newline>\<newline>Assistant:'')"
  by (simp add: completion_prompt_def format_messages_pairs)








section \<open>The functional tests: responses that miss their fields\<close>

lemma test_chat_model_answered:
  assumes "http_post env (base_url @ ''/v1/chat/completions'') (chat_request model_name)
             (request_headers internal_key) = Inr response"
    and "status_code response < 400"
    and "resp_json response = Inr response_data"
  shows "test_chat_model env base_url model_name internal_key =
     and_then (py_get response_data ''choices'' JNull) (\<lambda>choices.
       if \<not> truthy choices then Inl (Exception ''Invalid response: missing 'choices' field'')
       else Inr (JDict [(''request'', chat_request model_name), (''response'', response_data)]))"
  using assms by (simp add: test_chat_model_def Let_def cong del: if_weak_cong)

lemma test_embedding_model_answered:
  assumes "http_post env (base_url @ ''/v1/embeddings'') (embedding_request model_name)
             (request_headers internal_key) = Inr response"
    and "status_code response < 400"
    and "resp_json response = Inr (JDict body)"
  shows "test_embedding_model env base_url model_name internal_key =
     (case map_of body ''data'' of
        None \<Rightarrow> Inl (Exception ''Invalid response: missing or invalid 'data' field'')
      | Some d \<Rightarrow>
          if \<not> truthy d \<or> \<not> is_list d
          then Inl (Exception ''Invalid response: missing or invalid 'data' field'')
          else and_then (py_first d) (\<lambda>first.
               and_then (py_get first ''embedding'' JNull) (\<lambda>embedding.
                 if \<not> truthy embedding
                 then Inl (Exception ''Invalid response: missing 'embedding' in data'')
                 else Inr (JDict [(''request'', embedding_request model_name), (''response'', JDict body)]))))"
  using assms by (auto simp: test_embedding_model_def Let_def split: option.splits cong del: if_weak_cong)

text \<open>
  C8, as the specification states it: a chat-test response without a nonempty
  \<^verbatim>\<open>choices\<close> collection fails.  Line 123 tests the truth value of \<^verbatim>\<open>choices\<close> only, so
  a 200 response whose \<^verbatim>\<open>choices\<close> is the number 1 passes the test.
\<close>

theorem truthy_choices_accepted_counterexample:
  "test_chat_model
      (backend bridge_dns [] [chat_route (Inr (json_reply 200 (JDict [(''choices'', JInt 1)])))])
      ''http://vllm-model-1:8000'' ''llama-3'' []
     = Inr (JDict [(''request'', chat_request ''llama-3''),
                   (''response'', JDict [(''choices'', JInt 1)])])"
proof -
  have "http_post (backend bridge_dns [] [chat_route (Inr (json_reply 200 (JDict [(''choices'', JInt 1)])))])
      (''http://vllm-model-1:8000'' @ ''/v1/chat/completions'') (chat_request ''llama-3'')
      (request_headers []) = Inr (json_reply 200 (JDict [(''choices'', JInt 1)]))"
    by (simp add: route_defs)
  from test_chat_model_answered [OF this] show ?thesis
    by simp
qed

text \<open>
  C8, amended: a response with a status below 400 (so every 2xx) that misses the expected
  fields makes the test raise.  The chat test raises when the body is an object whose
  \<^verbatim>\<open>choices\<close> is absent or falsy (null, false, zero, an empty string, list or object), and
  when the body is not an object; it does not check that \<^verbatim>\<open>choices\<close> is a collection.
  The embeddings test raises when \<^verbatim>\<open>data\<close> is absent, falsy or not a list, when the first
  element of \<^verbatim>\<open>data\<close> is an object whose \<^verbatim>\<open>embedding\<close> is absent or falsy, and when that
  first element is not an object.
\<close>

theorem missing_fields_fail:
  "(http_post env (base_url @ ''/v1/chat/completions'') (chat_request model_name)
        (request_headers internal_key) = Inr response
      \<and> status_code response < 400 \<and> resp_json response = Inr (JDict body)
      \<and> (map_of body ''choices'' = None \<or> (\<exists>c. map_of body ''choices'' = Some c \<and> \<not> truthy c)) \<longrightarrow>
    test_chat_model env base_url model_name internal_key
      = Inl (Exception ''Invalid response: missing 'choices' field''))
   \<and> (http_post env (base_url @ ''/v1/chat/completions'') (chat_request model_name)
        (request_headers internal_key) = Inr response
      \<and> status_code response < 400 \<and> resp_json response = Inr v \<and> (\<forall>b. v \<noteq> JDict b) \<longrightarrow>
    (\<exists>e. test_chat_model env base_url model_name internal_key = Inl e))
   \<and> (http_post env (base_url @ ''/v1/embeddings'') (embedding_request model_name)
        (request_headers internal_key) = Inr response
      \<and> status_code response < 400 \<and> resp_json response = Inr (JDict body)
      \<and> (map_of body ''data'' = None
          \<or> (\<exists>d. map_of body ''data'' = Some d \<and> (\<not> truthy d \<or> \<not> is_list d))) \<longrightarrow>
    test_embedding_model env base_url model_name internal_key
      = Inl (Exception ''Invalid response: missing or invalid 'data' field''))
   \<and> (http_post env (base_url @ ''/v1/embeddings'') (embedding_request model_name)
        (request_headers internal_key) = Inr response
      \<and> status_code response < 400 \<and> resp_json response = Inr (JDict body)
      \<and> map_of body ''data'' = Some (JList (JDict first # rest))
      \<and> (map_of first ''embedding'' = None
          \<or> (\<exists>x. map_of first ''embedding'' = Some x \<and> \<not> truthy x)) \<longrightarrow>
    test_embedding_model env base_url model_name internal_key
      = Inl (Exception ''Invalid response: missing 'embedding' in data''))
   \<and> (http_post env (base_url @ ''/v1/embeddings'') (embedding_request model_name)
        (request_headers internal_key) = Inr response
      \<and> status_code response < 400 \<and> resp_json response = Inr (JDict body)
      \<and> map_of body ''data'' = Some (JList (v # rest)) \<and> (\<forall>b. v \<noteq> JDict b) \<longrightarrow>
    (\<exists>e. test_embedding_model env base_url model_name internal_key = Inl e))"
proof -
  have c1: "http_post env (base_url @ ''/v1/chat/completions'') (chat_request model_name)
        (request_headers internal_key) = Inr response
      \<and> status_code response < 400 \<and> resp_json response = Inr (JDict body)
      \<and> (map_of body ''choices'' = None \<or> (\<exists>c. map_of body ''choices'' = Some c \<and> \<not> truthy c)) \<longrightarrow>
    test_chat_model env base_url model_name internal_key
      = Inl (Exception ''Invalid response: missing 'choices' field'')"
    using test_chat_model_answered [of env base_url model_name internal_key response "JDict body"]
    by (auto split: option.splits)
  have c2: "http_post env (base_url @ ''/v1/chat/completions'') (chat_request model_name)
        (request_headers internal_key) = Inr response
      \<and> status_code response < 400 \<and> resp_json response = Inr v \<and> (\<forall>b. v \<noteq> JDict b) \<longrightarrow>
    (\<exists>e. test_chat_model env base_url model_name internal_key = Inl e)"
    using test_chat_model_answered [of env base_url model_name internal_key response v]
    by (cases v) auto
  note emb = test_embedding_model_answered [of env base_url model_name internal_key response body]
  have c3: "http_post env (base_url @ ''/v1/embeddings'') (embedding_request model_name)
        (request_headers internal_key) = Inr response
      \<and> status_code response < 400 \<and> resp_json response = Inr (JDict body)
      \<and> (map_of body ''data'' = None
          \<or> (\<exists>d. map_of body ''data'' = Some d \<and> (\<not> truthy d \<or> \<not> is_list d))) \<longrightarrow>
    test_embedding_model env base_url model_name internal_key
      = Inl (Exception ''Invalid response: missing or invalid 'data' field'')"
    using emb by (auto split: option.splits)
  have c4: "http_post env (base_url @ ''/v1/embeddings'') (embedding_request model_name)
        (request_headers internal_key) = Inr response
      \<and> status_code response < 400 \<and> resp_json response = Inr (JDict body)
      \<and> map_of body ''data'' = Some (JList (JDict first # rest))
      \<and> (map_of first ''embedding'' = None
          \<or> (\<exists>x. map_of first ''embedding'' = Some x \<and> \<not> truthy x)) \<longrightarrow>
    test_embedding_model env base_url model_name internal_key
      = Inl (Exception ''Invalid response: missing 'embedding' in data'')"
    using emb by (auto split: option.splits)
  have c5: "http_post env (base_url @ ''/v1/embeddings'') (embedding_request model_name)
        (request_headers internal_key) = Inr response
      \<and> status_code response < 400 \<and> resp_json response = Inr (JDict body)
      \<and> map_of body ''data'' = Some (JList (v # rest)) \<and> (\<forall>b. v \<noteq> JDict b) \<longrightarrow>
    (\<exists>e. test_embedding_model env base_url model_name internal_key = Inl e)"
    using emb by (cases v) (auto split: option.splits)
  from c1 c2 c3 c4 c5 show ?thesis
    by (intro conjI)
qed

theorem missing_fields_fail_witness:
  "test_chat_model
      (backend bridge_dns [] [chat_route (Inr (json_reply 200 (JDict [(''id'', JStr ''cmpl-1'')])))])
      ''http://vllm-model-1:8000'' ''llama-3'' []
     = Inl (Exception ''Invalid response: missing 'choices' field'')
   \<and> (\<exists>e. test_chat_model
      (backend bridge_dns [] [chat_route (Inr (json_reply 200 (JList [])))])
      ''http://vllm-model-1:8000'' ''llama-3'' [] = Inl e)
   \<and> test_embedding_model
      (backend bridge_dns [] [embeddings_route (Inr (json_reply 200 (JDict [(''data'', JList [])])))])
      ''http://vllm-model-1:8000'' ''bge-small'' []
     = Inl (Exception ''Invalid response: missing or invalid 'data' field'')
   \<and> test_embedding_model
      (backend bridge_dns []
         [embeddings_route (Inr (json_reply 200 (JDict [(''data'', JList [JDict [(''index'', JInt 0)]])])))])
      ''http://vllm-model-1:8000'' ''bge-small'' []
     = Inl (Exception ''Invalid response: missing 'embedding' in data'')
   \<and> (\<exists>e. test_embedding_model
      (backend bridge_dns []
         [embeddings_route (Inr (json_reply 200 (JDict [(''data'', JList [JStr ''x''])])))])
      ''http://vllm-model-1:8000'' ''bge-small'' [] = Inl e)"
proof -
  have chat: "http_post (backend bridge_dns [] [chat_route (Inr reply)])
        (''http://vllm-model-1:8000'' @ ''/v1/chat/completions'') (chat_request ''llama-3'')
        (request_headers []) = Inr reply" for reply
    by (simp add: route_defs)
  have emb: "http_post (backend bridge_dns [] [embeddings_route (Inr reply)])
        (''http://vllm-model-1:8000'' @ ''/v1/embeddings'') (embedding_request ''bge-small'')
        (request_headers []) = Inr reply" for reply
    by (simp add: route_defs)
  have h1: "http_post (backend bridge_dns [] [chat_route (Inr (json_reply 200 (JDict [(''id'', JStr ''cmpl-1'')])))])
        (''http://vllm-model-1:8000'' @ ''/v1/chat/completions'') (chat_request ''llama-3'')
        (request_headers []) = Inr (json_reply 200 (JDict [(''id'', JStr ''cmpl-1'')]))
      \<and> status_code (json_reply 200 (JDict [(''id'', JStr ''cmpl-1'')])) < 400
      \<and> resp_json (json_reply 200 (JDict [(''id'', JStr ''cmpl-1'')])) = Inr (JDict [(''id'', JStr ''cmpl-1'')])
      \<and> (map_of [(''id'', JStr ''cmpl-1'')] ''choices'' = None
          \<or> (\<exists>c. map_of [(''id'', JStr ''cmpl-1'')] ''choices'' = Some c \<and> \<not> truthy c))"
    using chat by simp
  have h2: "http_post (backend bridge_dns [] [chat_route (Inr (json_reply 200 (JList [])))])
        (''http://vllm-model-1:8000'' @ ''/v1/chat/completions'') (chat_request ''llama-3'')
        (request_headers []) = Inr (json_reply 200 (JList []))
      \<and> status_code (json_reply 200 (JList [])) < 400
      \<and> resp_json (json_reply 200 (JList [])) = Inr (JList []) \<and> (\<forall>b. JList [] \<noteq> JDict b)"
    using chat by simp
  have h3: "http_post (backend bridge_dns [] [embeddings_route (Inr (json_reply 200 (JDict [(''data'', JList [])])))])
        (''http://vllm-model-1:8000'' @ ''/v1/embeddings'') (embedding_request ''bge-small'')
        (request_headers []) = Inr (json_reply 200 (JDict [(''data'', JList [])]))
      \<and> status_code (json_reply 200 (JDict [(''data'', JList [])])) < 400
      \<and> resp_json (json_reply 200 (JDict [(''data'', JList [])])) = Inr (JDict [(''data'', JList [])])
      \<and> (map_of [(''data'', JList [])] ''data'' = None
          \<or> (\<exists>d. map_of [(''data'', JList [])] ''data'' = Some d \<and> (\<not> truthy d \<or> \<not> is_list d)))"
    using emb by simp
  have h4: "http_post (backend bridge_dns []
          [embeddings_route (Inr (json_reply 200 (JDict [(''data'', JList [JDict [(''index'', JInt 0)]])])))])
        (''http://vllm-model-1:8000'' @ ''/v1/embeddings'') (embedding_request ''bge-small'')
        (request_headers []) = Inr (json_reply 200 (JDict [(''data'', JList [JDict [(''index'', JInt 0)]])]))
      \<and> status_code (json_reply 200 (JDict [(''data'', JList [JDict [(''index'', JInt 0)]])])) < 400
      \<and> resp_json (json_reply 200 (JDict [(''data'', JList [JDict [(''index'', JInt 0)]])]))
          = Inr (JDict [(''data'', JList [JDict [(''index'', JInt 0)]])])
      \<and> map_of [(''data'', JList [JDict [(''index'', JInt 0)]])] ''data''
          = Some (JList (JDict [(''index'', JInt 0)] # []))
      \<and> (map_of [(''index'', JInt 0)] ''embedding'' = None
          \<or> (\<exists>x. map_of [(''index'', JInt 0)] ''embedding'' = Some x \<and> \<not> truthy x))"
    using emb by simp
  have h5: "http_post (backend bridge_dns []
          [embeddings_route (Inr (json_reply 200 (JDict [(''data'', JList [JStr ''x''])])))])
        (''http://vllm-model-1:8000'' @ ''/v1/embeddings'') (embedding_request ''bge-small'')
        (request_headers []) = Inr (json_reply 200 (JDict [(''data'', JList [JStr ''x''])]))
      \<and> status_code (json_reply 200 (JDict [(''data'', JList [JStr ''x''])])) < 400
      \<and> resp_json (json_reply 200 (JDict [(''data'', JList [JStr ''x''])]))
          = Inr (JDict [(''data'', JList [JStr ''x''])])
      \<and> map_of [(''data'', JList [JStr ''x''])] ''data'' = Some (JList (JStr ''x'' # []))
      \<and> (\<forall>b. JStr ''x'' \<noteq> JDict b)"
    using emb by simp
  from missing_fields_fail [THEN conjunct1, rule_format, OF h1]
    missing_fields_fail [THEN conjunct2, THEN conjunct1, rule_format, OF h2]
    missing_fields_fail [THEN conjunct2, THEN conjunct2, THEN conjunct1, rule_format, OF h3]
    missing_fields_fail [THEN conjunct2, THEN conjunct2, THEN conjunct2, THEN conjunct1, rule_format, OF h4]
    missing_fields_fail [THEN conjunct2, THEN conjunct2, THEN conjunct2, THEN conjunct2, rule_format, OF h5]
  show ?thesis
    by (intro conjI)
qed

end
